theory Spec2Isabelle
  imports Complex_Main
begin

unbundle bit_operations_syntax

section \<open>Akai MPD218 controller script: NRPN decoding, motion dispatch, pad feedback\<close>

text \<open>
  A shallow embedding of \<^verbatim>\<open>Akai-MPD218-milkii-scripts.js\<close>. JavaScript numbers are
  modelled as \<^typ>\<open>real\<close> where they carry fractions (zoom values, speeds, positions)
  and as \<^typ>\<open>int\<close> or \<^typ>\<open>nat\<close> where the script only ever holds integers (MIDI bytes,
  timestamps in milliseconds, pad notes). Arithmetic is exact: the rounding of IEEE
  doubles is not modelled. Console logging is left out; every call into the host
  (\<^verbatim>\<open>midi.sendShortMsg\<close>, \<^verbatim>\<open>engine.setValue\<close>, \<^verbatim>\<open>engine.stopTimer\<close>,
  \<^verbatim>\<open>engine.beginTimer\<close>) is recorded as an effect, in call order.
\<close>

subsection \<open>NRPN parameter tracking (MPD218.State.nrpnParams)\<close>

text \<open>
  One entry of \<^verbatim>\<open>MPD218.State.nrpnParams\<close>: an object whose properties \<^verbatim>\<open>msb\<close>,
  \<^verbatim>\<open>lsb\<close> and \<^verbatim>\<open>param\<close> are \<^verbatim>\<open>undefined\<close> (here \<open>None\<close>) until they are assigned.
\<close>

record nrpn_entry =
  msb :: "int option"
  lsb :: "int option"
  param :: "int option"

definition empty_entry :: nrpn_entry where
  "empty_entry = \<lparr>msb = None, lsb = None, param = None\<rparr>"

type_synonym nrpn_table = "nat \<rightharpoonup> nrpn_entry"

text \<open>\<^verbatim>\<open>if (!nrpnParams[c]) nrpnParams[c] = {}\<close> followed by reading the entry.\<close>

definition entry_of :: "nrpn_table \<Rightarrow> nat \<Rightarrow> nrpn_entry" where
  "entry_of t c = (case t c of None \<Rightarrow> empty_entry | Some e \<Rightarrow> e)"

text \<open>\<^verbatim>\<open>handleNRPN.setParameter(channel, msb, lsb)\<close>, lines 944-954.\<close>

definition setParameter :: "nat \<Rightarrow> int \<Rightarrow> int \<Rightarrow> nrpn_table \<Rightarrow> nrpn_table" where
  "setParameter channel m l t =
     (let midiChannel = channel + 1
      in t(midiChannel \<mapsto> (entry_of t midiChannel)\<lparr>param := Some (push_bit 7 m OR l)\<rparr>))"

text \<open>\<^verbatim>\<open>MIDIHandlers.nrpnMSB\<close>, lines 1153-1163: only the high byte is stored.\<close>

definition nrpnMSB :: "nat \<Rightarrow> int \<Rightarrow> nrpn_table \<Rightarrow> nrpn_table" where
  "nrpnMSB status v t =
     (let midiChannel = status AND 0x0F
      in t(midiChannel + 1 \<mapsto> (entry_of t (midiChannel + 1))\<lparr>msb := Some v\<rparr>))"

text \<open>
  \<^verbatim>\<open>MIDIHandlers.nrpnLSB\<close>, lines 1166-1182: the low byte is stored, and the parameter
  is set when a high byte has been seen (\<^verbatim>\<open>params.msb !== undefined\<close>).
\<close>

definition nrpnLSB :: "nat \<Rightarrow> int \<Rightarrow> nrpn_table \<Rightarrow> nrpn_table" where
  "nrpnLSB status v t =
     (let midiChannel = status AND 0x0F;
          params = (entry_of t (midiChannel + 1))\<lparr>lsb := Some v\<rparr>;
          t' = t(midiChannel + 1 \<mapsto> params)
      in case msb params of
           None \<Rightarrow> t'
         | Some m \<Rightarrow> setParameter midiChannel m v t')"

text \<open>A parameter-select message on one channel: CC 99 carries the MSB, CC 98 the LSB.\<close>

datatype cc = CC99 int | CC98 int

fun on_cc :: "nat \<Rightarrow> cc \<Rightarrow> nrpn_table \<Rightarrow> nrpn_table" where
  "on_cc status (CC99 v) t = nrpnMSB status v t"
| "on_cc status (CC98 v) t = nrpnLSB status v t"

text \<open>The messages of a sequence are handled in arrival order, starting from
  \<^verbatim>\<open>nrpnParams: {}\<close>.\<close>

definition run_cc :: "nat \<Rightarrow> cc list \<Rightarrow> nrpn_table" where
  "run_cc status msgs = fold (on_cc status) msgs Map.empty"

text \<open>The stored parameter of the channel addressed by a status byte.\<close>

definition stored_param :: "nat \<Rightarrow> nrpn_table \<Rightarrow> int option" where
  "stored_param status t = param (entry_of t ((status AND 0x0F) + 1))"

definition stored_msb :: "nat \<Rightarrow> nrpn_table \<Rightarrow> int option" where
  "stored_msb status t = msb (entry_of t ((status AND 0x0F) + 1))"

text \<open>The value of the last CC 99 of a sequence, if there is one.\<close>

fun last_msb :: "cc list \<Rightarrow> int option" where
  "last_msb [] = None"
| "last_msb (CC99 v # ms) = (case last_msb ms of None \<Rightarrow> Some v | Some w \<Rightarrow> Some w)"
| "last_msb (CC98 v # ms) = last_msb ms"

subsection \<open>Configuration (MPD218.Config) and constants\<close>

text \<open>The fields of \<^verbatim>\<open>MPD218.Config\<close> that the functions below read.\<close>

record config =
  rotation :: real
  rotationDirection :: string
  deckOrder :: "nat list"
  zoomFast :: real
  zoomSlow :: real
  beatgridSpeed :: real
  zoomFeedback_enabled :: bool
  zoomFeedback_duration :: real
  reverseDirection :: bool

text \<open>The configuration as the script ships it (lines 187-244).\<close>

definition default_config :: config where
  "default_config =
     \<lparr>rotation = 90, rotationDirection = ''counterclockwise'', deckOrder = [3, 1, 2, 4],
      zoomFast = 1, zoomSlow = 0.1, beatgridSpeed = 1,
      zoomFeedback_enabled = True, zoomFeedback_duration = 4000, reverseDirection = True\<rparr>"

definition NOTE_ON :: nat where "NOTE_ON = 0x90"
definition NOTE_OFF :: nat where "NOTE_OFF = 0x80"
definition CC :: nat where "CC = 0xB0"
definition PAD_CHANNEL :: nat where "PAD_CHANNEL = 9"
definition LED_ON :: nat where "LED_ON = 127"
definition LED_OFF :: nat where "LED_OFF = 0"
definition MAX_ZOOM :: real where "MAX_ZOOM = 100"
definition MIN_ZOOM :: real where "MIN_ZOOM = 1"
definition ZOOM_FEEDBACK_DURATION :: real where "ZOOM_FEEDBACK_DURATION = 4000"

subsection \<open>Pad layout (MPD218.LayoutGenerator)\<close>

definition PHYSICAL_GRID :: "nat list list" where
  "PHYSICAL_GRID =
     [[0x30, 0x31, 0x32, 0x33],
      [0x2C, 0x2D, 0x2E, 0x2F],
      [0x28, 0x29, 0x2A, 0x2B],
      [0x24, 0x25, 0x26, 0x27]]"

text \<open>
  One pass of the loop body of \<^verbatim>\<open>rotateGrid\<close> (lines 266-289). The only caller passes
  the 4x4 \<open>PHYSICAL_GRID\<close>, and a pass keeps the grid 4x4, so every index is in range.
\<close>

definition rotateStep :: "bool \<Rightarrow> nat list list \<Rightarrow> nat list list" where
  "rotateStep clockwise rotated =
     (let rows = length rotated; cols = length (hd rotated)
      in if clockwise
         then map (\<lambda>col. map (\<lambda>row. rotated ! row ! col) (rev [0..<rows])) [0..<cols]
         else map (\<lambda>col. map (\<lambda>row. rotated ! row ! col) [0..<rows]) (rev [0..<cols]))"

text \<open>JavaScript's \<^verbatim>\<open>%\<close> on numbers: the remainder has the sign of the dividend.\<close>

definition js_rem :: "real \<Rightarrow> real \<Rightarrow> real" where
  "js_rem a b = a - b * of_int (if a / b < 0 then \<lceil>a / b\<rceil> else \<lfloor>a / b\<rfloor>)"

text \<open>\<^verbatim>\<open>for (let i = 0; i < rotations; i++)\<close> with a fractional bound.\<close>

function rotateLoop :: "bool \<Rightarrow> real \<Rightarrow> nat \<Rightarrow> nat list list \<Rightarrow> nat list list" where
  "rotateLoop clockwise rotations i rotated =
     (if real i < rotations
      then rotateLoop clockwise rotations (i + 1) (rotateStep clockwise rotated)
      else rotated)"
  by pat_completeness auto
termination
  by (relation "measure (\<lambda>(c, r, i, g). nat \<lceil>r\<rceil> - i)") (auto, linarith)

declare rotateLoop.simps [simp del]

definition rotateGrid :: "nat list list \<Rightarrow> real \<Rightarrow> string \<Rightarrow> nat list list" where
  "rotateGrid grid degrees direction =
     (let rotations = js_rem (degrees / 90) 4;
          clockwise = (direction = ''clockwise'')
      in rotateLoop clockwise rotations 0 grid)"

text \<open>The parts of \<^verbatim>\<open>generateLayout()\<close> that the LED manager reads: the rotated grid
  and its row-major flattening.\<close>

record layout =
  NOTES :: "nat list"
  GRID :: "nat list list"

definition generateLayout :: "config \<Rightarrow> layout" where
  "generateLayout cfg =
     (let rotatedGrid = rotateGrid PHYSICAL_GRID (rotation cfg) (rotationDirection cfg)
      in \<lparr>NOTES = concat rotatedGrid, GRID = rotatedGrid\<rparr>)"

subsection \<open>Encoder mappings (MPD218.generateEncoderMappings)\<close>

text \<open>A mapping object \<^verbatim>\<open>{type, deck, speed}\<close>.\<close>

record encoder_mapping =
  etype :: string
  edeck :: string
  espeed :: real

text \<open>Reading an array element: \<^verbatim>\<open>undefined\<close> (here \<open>None\<close>) outside the array.\<close>

definition js_index :: "'a list \<Rightarrow> nat \<Rightarrow> 'a option" where
  "js_index xs i = (if i < length xs then Some (xs ! i) else None)"

text \<open>A non-negative integer printed in decimal, as a template literal does.\<close>

fun decimal :: "nat \<Rightarrow> string" where
  "decimal n =
     (if n < 10 then [''0123456789'' ! n]
      else decimal (n div 10) @ [''0123456789'' ! (n mod 10)])"

declare decimal.simps [simp del]

text \<open>The template literal \<^verbatim>\<open>`[Channel${x}]`\<close>.\<close>

definition template_Channel :: "nat option \<Rightarrow> string" where
  "template_Channel x =
     ''[Channel'' @ (case x of None \<Rightarrow> ''undefined'' | Some n \<Rightarrow> decimal n) @ '']''"

definition gridToDeckIndex :: "nat list" where
  "gridToDeckIndex = [0, 3, 1, 2]"

definition rotatedGridToDeckIndex :: "config \<Rightarrow> nat list" where
  "rotatedGridToDeckIndex cfg =
     (if rotation cfg = 90 \<and> rotationDirection cfg = ''counterclockwise''
      then [gridToDeckIndex ! 2, gridToDeckIndex ! 0, gridToDeckIndex ! 3, gridToDeckIndex ! 1]
      else if rotation cfg = 0 then gridToDeckIndex
      else if rotation cfg = 180
      then [gridToDeckIndex ! 3, gridToDeckIndex ! 2, gridToDeckIndex ! 1, gridToDeckIndex ! 0]
      else if rotation cfg = 270 \<or> (rotation cfg = 90 \<and> rotationDirection cfg = ''clockwise'')
      then [gridToDeckIndex ! 1, gridToDeckIndex ! 3, gridToDeckIndex ! 0, gridToDeckIndex ! 2]
      else gridToDeckIndex)"

definition encoderToDeck :: "config \<Rightarrow> nat option list" where
  "encoderToDeck cfg = map (\<lambda>idx. js_index (deckOrder cfg) idx) (rotatedGridToDeckIndex cfg)"

text \<open>The object literal returned by \<^verbatim>\<open>generateEncoderMappings()\<close> (lines 487-514), keyed
  by MIDI channel.\<close>

definition generateEncoderMappings :: "config \<Rightarrow> nat \<rightharpoonup> encoder_mapping" where
  "generateEncoderMappings cfg =
     (let e = encoderToDeck cfg
      in map_of
        [(1, \<lparr>etype = ''zoom'', edeck = ''[Channel1]'', espeed = zoomFast cfg\<rparr>),
         (2, \<lparr>etype = ''zoom'', edeck = ''[Channel1]'', espeed = zoomSlow cfg\<rparr>),
         (3, \<lparr>etype = ''superknob'', edeck = template_Channel (e ! 0), espeed = 4\<rparr>),
         (4, \<lparr>etype = ''superknob'', edeck = template_Channel (e ! 1), espeed = 4\<rparr>),
         (5, \<lparr>etype = ''superknob'', edeck = template_Channel (e ! 2), espeed = 4\<rparr>),
         (6, \<lparr>etype = ''superknob'', edeck = template_Channel (e ! 3), espeed = 4\<rparr>),
         (7, \<lparr>etype = ''beatjump'', edeck = template_Channel (e ! 0), espeed = 1\<rparr>),
         (8, \<lparr>etype = ''beatjump'', edeck = template_Channel (e ! 1), espeed = 1\<rparr>),
         (9, \<lparr>etype = ''beatjump'', edeck = template_Channel (e ! 2), espeed = 1\<rparr>),
         (10, \<lparr>etype = ''beatjump'', edeck = template_Channel (e ! 3), espeed = 1\<rparr>),
         (13, \<lparr>etype = ''beatgrid'', edeck = template_Channel (e ! 0), espeed = beatgridSpeed cfg\<rparr>),
         (14, \<lparr>etype = ''beatgrid'', edeck = template_Channel (e ! 1), espeed = beatgridSpeed cfg\<rparr>),
         (15, \<lparr>etype = ''beatgrid'', edeck = template_Channel (e ! 2), espeed = beatgridSpeed cfg\<rparr>),
         (16, \<lparr>etype = ''beatgrid'', edeck = template_Channel (e ! 3), espeed = beatgridSpeed cfg\<rparr>)])"

text \<open>
  The module-level values the handlers read: \<^verbatim>\<open>MPD218.Config\<close>, \<^verbatim>\<open>MPD218.PadLayout\<close> and
  \<^verbatim>\<open>MPD218.EncoderMappings\<close>. \<open>load\<close> computes the last two as the script does when it
  is loaded (lines 368 and 518).
\<close>

record globals =
  Config :: config
  PadLayout :: layout
  EncoderMappings :: "nat \<rightharpoonup> encoder_mapping"

definition load :: "config \<Rightarrow> globals" where
  "load cfg =
     \<lparr>Config = cfg, PadLayout = generateLayout cfg, EncoderMappings = generateEncoderMappings cfg\<rparr>"

subsection \<open>Host effects\<close>

text \<open>
  The calls the script makes into the host, in the order it makes them:
  \<^verbatim>\<open>midi.sendShortMsg(status, note, velocity)\<close>, \<^verbatim>\<open>engine.setValue(group, key, value)\<close>,
  \<^verbatim>\<open>engine.stopTimer(id)\<close> and \<^verbatim>\<open>engine.beginTimer(duration, callback, true)\<close>.
  The identifier that \<^verbatim>\<open>beginTimer\<close> returns is an input of the functions that start a
  timer (\<open>tid\<close>); the values \<^verbatim>\<open>engine.getValue\<close> returns are read from an \<open>engine\<close>.
\<close>

datatype effect =
    SendShortMsg nat nat nat
  | SetValue string string real
  | StopTimer nat
  | BeginTimer real

type_synonym engine = "string \<Rightarrow> string \<Rightarrow> real"

subsection \<open>LED manager (MPD218.LEDManager)\<close>

text \<open>\<^verbatim>\<open>setPadLED(note, state)\<close>, lines 524-542: note on/off, and a CC as backup when
  switching on.\<close>

definition setPadLED :: "nat \<Rightarrow> bool \<Rightarrow> effect list" where
  "setPadLED note st =
     (let velocity = (if st then LED_ON else LED_OFF);
          status = (if st then NOTE_ON + PAD_CHANNEL else NOTE_OFF + PAD_CHANNEL)
      in SendShortMsg status note velocity #
         (if st then [SendShortMsg (CC + PAD_CHANNEL) note LED_ON] else []))"

definition allPadsOff :: "globals \<Rightarrow> effect list" where
  "allPadsOff g = concat (map (\<lambda>note. setPadLED note False) (NOTES (PadLayout g)))"

text \<open>
  \<^verbatim>\<open>currentPadStates\<close> and \<^verbatim>\<open>targetPadStates\<close> are objects used as sets of pad notes:
  the only value ever stored under a key is \<^verbatim>\<open>true\<close>. They are modelled by their list
  of keys in the order \<^verbatim>\<open>Object.keys\<close> enumerates integer keys, which is ascending.
\<close>

type_synonym pad_states = "nat list"

definition obj_has :: "pad_states \<Rightarrow> nat \<Rightarrow> bool" where
  "obj_has m k = (k \<in> set m)"

fun obj_add :: "nat \<Rightarrow> pad_states \<Rightarrow> pad_states" where
  "obj_add k [] = [k]"
| "obj_add k (x # xs) =
     (if k < x then k # x # xs else if k = x then x # xs else x # obj_add k xs)"

definition obj_delete :: "nat \<Rightarrow> pad_states \<Rightarrow> pad_states" where
  "obj_delete k m = removeAll k m"

text \<open>
  A feedback session, \<^verbatim>\<open>State.zoomFeedback\<close> or \<^verbatim>\<open>State.superknobFeedback\<close>. The field
  \<open>lastValue\<close> is \<^verbatim>\<open>lastLevel\<close> (an integer step) in the zoom session and \<^verbatim>\<open>lastValue\<close>
  (the knob value) in the superknob session; \<^verbatim>\<open>null\<close> is \<open>None\<close>.
\<close>

record 'a feedback =
  active :: bool
  fb_deck :: "string option"
  timer :: "nat option"
  lastValue :: "'a option"
  currentPadStates :: pad_states

definition idle_feedback :: "'a feedback" where
  "idle_feedback =
     \<lparr>active = False, fb_deck = None, timer = None, lastValue = None, currentPadStates = []\<rparr>"

text \<open>\<^verbatim>\<open>if (timer) engine.stopTimer(timer)\<close>: \<^verbatim>\<open>null\<close> and 0 are falsy.\<close>

definition stopTimerIfSet :: "nat option \<Rightarrow> effect list" where
  "stopTimerIfSet t = (case t of None \<Rightarrow> [] | Some n \<Rightarrow> if n = 0 then [] else [StopTimer n])"

text \<open>\<^verbatim>\<open>getBottomLeftToTopRightOrder()\<close>, lines 684-698: bottom row first, each row left
  to right.\<close>

definition getBottomLeftToTopRightOrder :: "globals \<Rightarrow> nat list" where
  "getBottomLeftToTopRightOrder g = concat (rev (GRID (PadLayout g)))"

text \<open>Lines 787-791: top row first, each row right to left.\<close>

definition topRightToBottomLeftOrder :: "globals \<Rightarrow> nat list" where
  "topRightToBottomLeftOrder g = concat (map rev (GRID (PadLayout g)))"

text \<open>
  \<^verbatim>\<open>for (let i = 0; i < n && i < orderedPads.length; i++) targetPadStates[orderedPads[i]] = true\<close>
  (lines 642-645 with \<open>n = clampedSteps + 1\<close>, lines 805-808 with \<open>n = clampedPads\<close>).
\<close>

definition targetPadStates :: "nat \<Rightarrow> nat list \<Rightarrow> pad_states" where
  "targetPadStates n orderedPads = fold obj_add (take n orderedPads) []"

text \<open>
  The differential update, lines 650-674 (and, word for word, 813-837). First loop: each
  key of the current states that is lit and not in the target is switched off and
  deleted. Second loop: each key of the target that is not in the current states is
  switched on and added.
\<close>

definition turnOffStale :: "pad_states \<Rightarrow> pad_states \<Rightarrow> pad_states \<times> effect list" where
  "turnOffStale target currentStates =
     fold (\<lambda>note (cur, out).
             if obj_has cur note \<and> \<not> obj_has target note
             then (obj_delete note cur, out @ setPadLED note False)
             else (cur, out))
          currentStates (currentStates, [])"

definition turnOnNew :: "pad_states \<Rightarrow> pad_states \<Rightarrow> pad_states \<times> effect list" where
  "turnOnNew target currentStates =
     fold (\<lambda>note (cur, out).
             if \<not> obj_has cur note
             then (obj_add note cur, out @ setPadLED note True)
             else (cur, out))
          target (currentStates, [])"

definition differentialUpdate :: "pad_states \<Rightarrow> pad_states \<Rightarrow> pad_states \<times> effect list" where
  "differentialUpdate target currentStates =
     (let (c1, off) = turnOffStale target currentStates;
          (c2, on) = turnOnNew target c1
      in (c2, off @ on))"

text \<open>Lines 594-597: the zoom level as a step between 0 and 15.\<close>

definition clampedSteps :: "real \<Rightarrow> int" where
  "clampedSteps zoomLevel =
     (let normalizedZoom = (zoomLevel - MIN_ZOOM) / (MAX_ZOOM - MIN_ZOOM);
          zoomSteps = \<lfloor>normalizedZoom * 16\<rfloor>
      in max 0 (min 15 zoomSteps))"

text \<open>\<^verbatim>\<open>showZoomFeedback(deck, zoomLevel)\<close>, lines 592-681.\<close>

definition showZoomFeedback ::
  "globals \<Rightarrow> nat \<Rightarrow> string \<Rightarrow> real \<Rightarrow> int feedback \<Rightarrow> int feedback \<times> effect list" where
  "showZoomFeedback g tid deck zoomLevel zf =
     (let steps = clampedSteps zoomLevel;
          feedbackDuration =
            (if zoomFeedback_duration (Config g) = 0 then ZOOM_FEEDBACK_DURATION
             else zoomFeedback_duration (Config g))
      in if active zf \<and> lastValue zf = Some steps \<and> fb_deck zf = Some deck
         then (zf\<lparr>timer := Some tid\<rparr>,
               stopTimerIfSet (timer zf) @ [BeginTimer feedbackDuration])
         else
           let orderedPads = getBottomLeftToTopRightOrder g;
               clear = (if currentPadStates zf = [] then allPadsOff g else []);
               target = targetPadStates (nat steps + 1) orderedPads;
               (cur, leds) = differentialUpdate target (currentPadStates zf)
           in (zf\<lparr>active := True, fb_deck := Some deck, lastValue := Some steps,
                    currentPadStates := cur, timer := Some tid\<rparr>,
               stopTimerIfSet (timer zf) @ clear @ leds @ [BeginTimer feedbackDuration]))"

text \<open>Lines 735-738: the number of pads to show; \<^verbatim>\<open>Math.round\<close> rounds halves up.\<close>

definition clampedPads :: "real \<Rightarrow> int" where
  "clampedPads superknobValue =
     (let distanceFromCenter = \<bar>superknobValue - 0.5\<bar>;
          normalizedDistance = distanceFromCenter * 2;
          padsToShow = \<lfloor>(1 - normalizedDistance) * 16 + 1 / 2\<rfloor>
      in max 0 (min 16 padsToShow))"

text \<open>\<^verbatim>\<open>showSuperknobFeedback(deck, superknobValue)\<close>, lines 725-844.\<close>

definition showSuperknobFeedback ::
  "globals \<Rightarrow> nat \<Rightarrow> string \<Rightarrow> real \<Rightarrow> real feedback \<Rightarrow> real feedback \<times> effect list" where
  "showSuperknobFeedback g tid deck superknobValue sf =
     (let pads = clampedPads superknobValue;
          feedbackDuration = ZOOM_FEEDBACK_DURATION
      in if active sf \<and> lastValue sf = Some superknobValue \<and> fb_deck sf = Some deck
         then (sf\<lparr>timer := Some tid\<rparr>,
               stopTimerIfSet (timer sf) @ [BeginTimer feedbackDuration])
         else
           let orderedPads =
                 (if superknobValue < 0.5 then getBottomLeftToTopRightOrder g
                  else topRightToBottomLeftOrder g);
               clear = (if currentPadStates sf = [] then allPadsOff g else []);
               target = targetPadStates (nat pads) orderedPads;
               (cur, leds) = differentialUpdate target (currentPadStates sf)
           in (sf\<lparr>active := True, fb_deck := Some deck, lastValue := Some superknobValue,
                    currentPadStates := cur, timer := Some tid\<rparr>,
               stopTimerIfSet (timer sf) @ clear @ leds @ [BeginTimer feedbackDuration]))"

text \<open>The LED messages among the effects of a call.\<close>

fun is_led :: "effect \<Rightarrow> bool" where
  "is_led (SendShortMsg a b c) = True"
| "is_led e = False"

definition led_messages :: "effect list \<Rightarrow> effect list" where
  "led_messages out = filter is_led out"

subsection \<open>Controller state (MPD218.State)\<close>

text \<open>
  \<^verbatim>\<open>State.beatjumpRate\<close> holds two objects keyed by deck, \<^verbatim>\<open>lastTime\<close> and
  \<^verbatim>\<open>multiplier\<close>. Both keys of a deck are created by the same two assignments (lines
  1072-1073) and never deleted, so the pair is modelled as one entry per deck.
\<close>

record rate =
  lastTime :: int
  multiplier :: int

record state =
  nrpnParams :: nrpn_table
  zoomFeedback :: "int feedback"
  superknobFeedback :: "real feedback"
  beatjumpRate :: "string \<rightharpoonup> rate"

definition initial_state :: state where
  "initial_state =
     \<lparr>nrpnParams = Map.empty, zoomFeedback = idle_feedback,
      superknobFeedback = idle_feedback, beatjumpRate = Map.empty\<rparr>"

text \<open>The store behind \<^verbatim>\<open>engine.getValue\<close> after the \<^verbatim>\<open>engine.setValue\<close> calls among some
  effects: a control holds the value written to it last.\<close>

fun write_effect :: "effect \<Rightarrow> engine \<Rightarrow> engine" where
  "write_effect (SetValue grp key v) eng = eng(grp := (eng grp)(key := v))"
| "write_effect e eng = eng"

definition engine_after :: "effect list \<Rightarrow> engine \<Rightarrow> engine" where
  "engine_after out eng = fold write_effect out eng"

subsection \<open>Encoder handlers (MPD218.Controllers.handleNRPN)\<close>

text \<open>\<^verbatim>\<open>handleZoom(deck, direction, speed)\<close>, lines 1003-1022.\<close>

definition handleZoom ::
  "globals \<Rightarrow> engine \<Rightarrow> nat \<Rightarrow> string \<Rightarrow> int \<Rightarrow> real \<Rightarrow> state \<Rightarrow> state \<times> effect list" where
  "handleZoom g eng tid deck direction speed s =
     (let current = eng deck ''waveform_zoom'';
          actualDirection = (if reverseDirection (Config g) then - direction else direction);
          zoomFactor = 1 + (of_int actualDirection * speed * 0.05);
          newZoom = current * zoomFactor;
          newZoom = max MIN_ZOOM (min MAX_ZOOM newZoom)
      in if zoomFeedback_enabled (Config g)
         then let (zf, leds) = showZoomFeedback g tid deck newZoom (zoomFeedback s)
              in (s\<lparr>zoomFeedback := zf\<rparr>, SetValue deck ''waveform_zoom'' newZoom # leds)
         else (s, [SetValue deck ''waveform_zoom'' newZoom]))"

text \<open>\<^verbatim>\<open>handleBeatgrid\<close>, lines 1024-1028; \<^verbatim>\<open>speed || 1.0\<close> replaces a zero speed by 1.\<close>

definition handleBeatgrid :: "string \<Rightarrow> int \<Rightarrow> real \<Rightarrow> state \<Rightarrow> state \<times> effect list" where
  "handleBeatgrid deck direction speed s =
     (let delta = of_int direction * (if speed = 0 then 1 else speed)
      in (s, [SetValue deck ''beats_translate_move'' delta]))"

text \<open>\<^verbatim>\<open>handleJogwheel\<close>, lines 1030-1033.\<close>

definition handleJogwheel :: "string \<Rightarrow> int \<Rightarrow> real \<Rightarrow> state \<Rightarrow> state \<times> effect list" where
  "handleJogwheel deck direction speed s =
     (let delta = of_int direction * speed * 0.01
      in (s, [SetValue deck ''jog'' delta]))"

text \<open>
  \<^verbatim>\<open>handleSuperknob\<close>, lines 1044-1063. \<^verbatim>\<open>deck.match(/\d+/)[0]\<close> throws a TypeError when
  the deck name holds no digit, before anything else is done.
\<close>

datatype js_error = TypeError

definition has_digit :: "string \<Rightarrow> bool" where
  "has_digit str = list_ex (\<lambda>c. c \<in> set ''0123456789'') str"

definition handleSuperknob ::
  "globals \<Rightarrow> engine \<Rightarrow> nat \<Rightarrow> string \<Rightarrow> int \<Rightarrow> real \<Rightarrow> state
     \<Rightarrow> js_error + state \<times> effect list" where
  "handleSuperknob g eng tid deck direction speed s =
     (if \<not> has_digit deck then Inl TypeError
      else
        let control = ''[QuickEffectRack1_'' @ deck @ '']'';
            current = eng control ''super1'';
            delta = of_int direction * 0.001 * speed;
            newValue = max 0 (min 1 (current + delta));
            (sf, leds) = showSuperknobFeedback g tid deck newValue (superknobFeedback s)
        in Inr (s\<lparr>superknobFeedback := sf\<rparr>, SetValue control ''super1'' newValue # leds))"

text \<open>Lines 1083-1100: the multiplier after a tick that came \<open>dt\<close> ms after the last one.\<close>

definition adjustMultiplier :: "int \<Rightarrow> int \<Rightarrow> int" where
  "adjustMultiplier timeSinceLastIncrement m =
     (if timeSinceLastIncrement < 50
      then (if m < 2 then 2 else if m < 4 then 4 else 8)
      else if timeSinceLastIncrement < 100
      then (if m < 2 then 2 else m)
      else if timeSinceLastIncrement > 150 then 1
      else m)"

text \<open>
  Lines 1068-1103: the rate tracking at the head of \<^verbatim>\<open>handleBeatJump\<close>, with \<open>now\<close> for
  \<^verbatim>\<open>Date.now()\<close>. \<^verbatim>\<open>!rateState.lastTime[deck]\<close> holds for a missing entry and for a stored 0.
  The result is the new table and \<^verbatim>\<open>beatSize\<close>.
\<close>

definition trackRate :: "int \<Rightarrow> string \<Rightarrow> (string \<rightharpoonup> rate) \<Rightarrow> (string \<rightharpoonup> rate) \<times> int" where
  "trackRate now deck rateState =
     (let r0 = (case rateState deck of
                  None \<Rightarrow> \<lparr>lastTime = now, multiplier = 1\<rparr>
                | Some r \<Rightarrow> if lastTime r = 0 then \<lparr>lastTime = now, multiplier = 1\<rparr> else r);
          timeSinceLastIncrement = now - lastTime r0;
          r1 = \<lparr>lastTime = now, multiplier = adjustMultiplier timeSinceLastIncrement (multiplier r0)\<rparr>
      in (rateState(deck \<mapsto> r1), multiplier r1))"

text \<open>\<^verbatim>\<open>handleBeatJump(deck, direction, speed)\<close>, lines 1065-1140.\<close>

definition handleBeatJump ::
  "engine \<Rightarrow> int \<Rightarrow> string \<Rightarrow> int \<Rightarrow> real \<Rightarrow> state \<Rightarrow> state \<times> effect list" where
  "handleBeatJump eng now deck direction speed s =
     (let (rateState, beatSize) = trackRate now deck (beatjumpRate s);
          currentPos = eng deck ''playposition'';
          trackDuration = eng deck ''duration'';
          currentTime = currentPos * trackDuration;
          bpm = eng deck ''bpm'';
          control = (if direction > 0 then ''beatjump_forward'' else ''beatjump_backward'');
          pulse = [SetValue deck ''beatjump_size'' (of_int beatSize), SetValue deck control 1]
      in (s\<lparr>beatjumpRate := rateState\<rparr>,
          if bpm > 0 \<and> trackDuration > 0
          then
            let secondsPerBeat = 60 / bpm;
                jumpSeconds = of_int beatSize * secondsPerBeat * of_int direction;
                newTime = currentTime + jumpSeconds
            in if newTime \<ge> 0 \<and> newTime \<le> trackDuration then pulse
               else if newTime < 0 then [SetValue deck ''playposition'' 0]
               else [SetValue deck ''playposition'' 0.999]
          else pulse))"

text \<open>
  \<^verbatim>\<open>processMotion(channel, increment, value)\<close>, lines 957-1001. A channel without a
  mapping, and a mapping type without a \<^verbatim>\<open>case\<close>, do nothing.
\<close>

definition processMotion ::
  "globals \<Rightarrow> engine \<Rightarrow> nat \<Rightarrow> int \<Rightarrow> nat \<Rightarrow> bool \<Rightarrow> int \<Rightarrow> state
     \<Rightarrow> js_error + state \<times> effect list" where
  "processMotion g eng tid now channel increment v s =
     (let midiChannel = channel + 1
      in case EncoderMappings g midiChannel of
           None \<Rightarrow> Inr (s, [])
         | Some mapping \<Rightarrow>
             let direction = (if increment then 1 else - 1);
                 speed = of_int v * (if espeed mapping = 0 then 1 else espeed mapping)
             in if etype mapping = ''zoom''
                then Inr (handleZoom g eng tid (edeck mapping) direction speed s)
                else if etype mapping = ''beatgrid''
                then Inr (handleBeatgrid (edeck mapping) direction speed s)
                else if etype mapping = ''jogwheel''
                then Inr (handleJogwheel (edeck mapping) direction speed s)
                else if etype mapping = ''beatjump''
                then Inr (handleBeatJump eng now (edeck mapping) direction speed s)
                else if etype mapping = ''superknob''
                then handleSuperknob g eng tid (edeck mapping) direction speed s
                else Inr (s, []))"

subsection \<open>MIDI handlers (MPD218.MIDIHandlers)\<close>

text \<open>\<^verbatim>\<open>nrpnIncrement\<close> and \<^verbatim>\<open>nrpnDecrement\<close>, lines 1185-1200.\<close>

definition nrpnIncrement ::
  "globals \<Rightarrow> engine \<Rightarrow> nat \<Rightarrow> int \<Rightarrow> nat \<Rightarrow> int \<Rightarrow> state \<Rightarrow> js_error + state \<times> effect list" where
  "nrpnIncrement g eng tid now status v s =
     (let midiChannel = status AND 0x0F
      in processMotion g eng tid now midiChannel True v s)"

definition nrpnDecrement ::
  "globals \<Rightarrow> engine \<Rightarrow> nat \<Rightarrow> int \<Rightarrow> nat \<Rightarrow> int \<Rightarrow> state \<Rightarrow> js_error + state \<times> effect list" where
  "nrpnDecrement g eng tid now status v s =
     (let midiChannel = status AND 0x0F
      in processMotion g eng tid now midiChannel False v s)"

text \<open>The parameter-select handlers act on \<^verbatim>\<open>State.nrpnParams\<close> only.\<close>

definition selectParameter :: "nat \<Rightarrow> cc \<Rightarrow> state \<Rightarrow> state" where
  "selectParameter status m s = s\<lparr>nrpnParams := on_cc status m (nrpnParams s)\<rparr>"

subsection \<open>Runs of handler calls\<close>

text \<open>The beat sizes used by successive beat-jump ticks on one deck, one tick per
  timestamp, each handled by \<open>handleBeatJump\<close> in the state the previous one left.\<close>

fun beatSizes :: "engine \<Rightarrow> string \<Rightarrow> int \<Rightarrow> int list \<Rightarrow> state \<Rightarrow> int list" where
  "beatSizes eng deck direction [] s = []"
| "beatSizes eng deck direction (now # ts) s =
     snd (trackRate now deck (beatjumpRate s)) #
     beatSizes eng deck direction ts (fst (handleBeatJump eng now deck direction 1 s))"

text \<open>A host whose controls all read 0 (no track loaded: bpm and duration are 0).\<close>

definition no_track :: engine where
  "no_track = (\<lambda>grp key. 0)"

text \<open>One zoom motion handled against the host: the handler runs on the current control
  values, and its \<^verbatim>\<open>engine.setValue\<close> calls are written back.\<close>

definition turnZoom ::
  "globals \<Rightarrow> nat \<Rightarrow> string \<Rightarrow> int \<Rightarrow> real \<Rightarrow> engine \<times> state \<Rightarrow> engine \<times> state" where
  "turnZoom g tid deck direction speed es =
     (let (s', out) = handleZoom g (fst es) tid deck direction speed (snd es)
      in (engine_after out (fst es), s'))"

text \<open>The writes of a beat-jump pulse and the writes of the transport position among
  some effects.\<close>

fun is_pulse :: "effect \<Rightarrow> bool" where
  "is_pulse (SetValue grp key v) = (key = ''beatjump_forward'' \<or> key = ''beatjump_backward'')"
| "is_pulse e = False"

fun is_size_write :: "effect \<Rightarrow> bool" where
  "is_size_write (SetValue grp key v) = (key = ''beatjump_size'')"
| "is_size_write e = False"

text \<open>Where a jump of \<open>beatSize\<close> beats would land, in seconds (lines 1108-1115).\<close>

definition jumpTarget :: "engine \<Rightarrow> string \<Rightarrow> int \<Rightarrow> int \<Rightarrow> real" where
  "jumpTarget eng deck beatSize direction =
     eng deck ''playposition'' * eng deck ''duration'' +
     of_int beatSize * (60 / eng deck ''bpm'') * of_int direction"

subsection \<open>Notions used to state the LED properties\<close>

text \<open>The messages of switching a list of pads on or off, pad after pad.\<close>

definition setPadLEDs :: "bool \<Rightarrow> nat list \<Rightarrow> effect list" where
  "setPadLEDs st notes = concat (map (\<lambda>note. setPadLED note st) notes)"

text \<open>
  The no-flicker guards of the two renderers (lines 600-602 and 741-743): the session
  is active, for the same deck, and the step (zoom) or the value (superknob) is the one
  shown last.
\<close>

definition sameZoomLevel :: "string \<Rightarrow> real \<Rightarrow> int feedback \<Rightarrow> bool" where
  "sameZoomLevel deck zoomLevel zf =
     (active zf \<and> lastValue zf = Some (clampedSteps zoomLevel) \<and> fb_deck zf = Some deck)"

definition sameSuperknobValue :: "string \<Rightarrow> real \<Rightarrow> real feedback \<Rightarrow> bool" where
  "sameSuperknobValue deck superknobValue sf =
     (active sf \<and> lastValue sf = Some superknobValue \<and> fb_deck sf = Some deck)"

text \<open>The pads the zoom renderer aims at for a zoom level.\<close>

definition zoomTarget :: "globals \<Rightarrow> real \<Rightarrow> pad_states" where
  "zoomTarget g zoomLevel =
     targetPadStates (nat (clampedSteps zoomLevel) + 1) (getBottomLeftToTopRightOrder g)"

text \<open>The pads the superknob renderer aims at for a knob value.\<close>

definition superknobTarget :: "globals \<Rightarrow> real \<Rightarrow> pad_states" where
  "superknobTarget g superknobValue =
     targetPadStates (nat (clampedPads superknobValue))
       (if superknobValue < 0.5 then getBottomLeftToTopRightOrder g
        else topRightToBottomLeftOrder g)"

text \<open>
  A zoom session as the renderer leaves it: the keys of its pad states ascend, and
  while it is active the pads are those of the step shown last.
\<close>

definition zoomSessionOk :: "globals \<Rightarrow> int feedback \<Rightarrow> bool" where
  "zoomSessionOk g zf =
     (sorted_wrt (<) (currentPadStates zf) \<and>
      (if active zf
       then (case lastValue zf of
               None \<Rightarrow> False
             | Some level \<Rightarrow>
                 currentPadStates zf
                   = targetPadStates (nat level + 1) (getBottomLeftToTopRightOrder g))
       else True))"

text \<open>The physical grid and its three quarter turns (clockwise, one after the other).\<close>

definition orientations :: "nat list list list" where
  "orientations =
     [PHYSICAL_GRID,
      [[0x24, 0x28, 0x2C, 0x30], [0x25, 0x29, 0x2D, 0x31],
       [0x26, 0x2A, 0x2E, 0x32], [0x27, 0x2B, 0x2F, 0x33]],
      [[0x27, 0x26, 0x25, 0x24], [0x2B, 0x2A, 0x29, 0x28],
       [0x2F, 0x2E, 0x2D, 0x2C], [0x33, 0x32, 0x31, 0x30]],
      [[0x33, 0x2F, 0x2B, 0x27], [0x32, 0x2E, 0x2A, 0x26],
       [0x31, 0x2D, 0x29, 0x25], [0x30, 0x2C, 0x28, 0x24]]]"

text \<open>The effects that write a control of the host.\<close>

fun is_write :: "effect \<Rightarrow> bool" where
  "is_write (SetValue grp key v) = True"
| "is_write e = False"

subsection \<open>The pad LEDs of the device\<close>

text \<open>
  Modelled from the spec: the LEDs of the controller, which is hardware and no part of
  the repository. Section 6 gives the LED protocol: a Note On with velocity N lights the
  pad, a Note Off (or a Note On with velocity 0) switches it off. The script addresses
  the pads on the pad channel (\<^verbatim>\<open>setPadLED\<close>, line 526); every other message and every
  other effect leaves the LEDs as they are. \<open>lit\<close> is the set of pads that are lit.
\<close>

fun led_effect :: "effect \<Rightarrow> nat set \<Rightarrow> nat set" where
  "led_effect (SendShortMsg status note velocity) lit =
     (if status = NOTE_ON + PAD_CHANNEL
      then (if velocity = 0 then lit - {note} else insert note lit)
      else if status = NOTE_OFF + PAD_CHANNEL then lit - {note}
      else lit)"
| "led_effect e lit = lit"

text \<open>The pads lit after the device has received the messages of some effects, in
  order.\<close>

definition pads_lit_after :: "effect list \<Rightarrow> nat set \<Rightarrow> nat set" where
  "pads_lit_after out lit = fold led_effect out lit"

subsection \<open>Properties of the NRPN parameter tracking\<close>

lemma entry_of_upd [simp]: "entry_of (t(c \<mapsto> e)) c = e"
  by (simp add: entry_of_def)

lemma stored_param_nrpnMSB: "stored_param status (nrpnMSB status v t) = stored_param status t"
  by (simp add: stored_param_def nrpnMSB_def Let_def)

lemma stored_msb_nrpnMSB: "stored_msb status (nrpnMSB status v t) = Some v"
  by (simp add: stored_msb_def nrpnMSB_def Let_def)

lemma stored_msb_nrpnLSB: "stored_msb status (nrpnLSB status v t) = stored_msb status t"
  by (simp add: stored_msb_def nrpnLSB_def setParameter_def Let_def split: option.splits)

lemma stored_param_nrpnLSB:
  "stored_param status (nrpnLSB status v t) =
     (case stored_msb status t of
        None \<Rightarrow> stored_param status t
      | Some m \<Rightarrow> Some (push_bit 7 m OR v))"
  by (simp add: stored_param_def stored_msb_def nrpnLSB_def setParameter_def Let_def
           split: option.splits)

lemma run_cc_snoc: "run_cc status (ms @ [m]) = on_cc status m (run_cc status ms)"
  by (simp add: run_cc_def)

lemma last_msb_snoc:
  "last_msb (ms @ [m]) = (case m of CC99 v \<Rightarrow> Some v | CC98 v \<Rightarrow> last_msb ms)"
  by (induction ms rule: last_msb.induct) (auto split: cc.splits option.splits)

lemma stored_msb_run_cc: "stored_msb status (run_cc status ms) = last_msb ms"
proof (induction ms rule: rev_induct)
  case Nil
  show ?case by (simp add: run_cc_def stored_msb_def entry_of_def empty_entry_def)
next
  case (snoc m ms)
  then show ?case
    by (cases m) (simp_all add: run_cc_snoc last_msb_snoc stored_msb_nrpnMSB stored_msb_nrpnLSB)
qed

text \<open>
  C1 (as stated, refuted). After the pair (127,127) on MIDI channel 1 the stored
  parameter is not cleared: it holds 16383. And after CC 99 = 1, CC 98 = 2, CC 99 = 3 the
  stored parameter is still 130, from the earlier pair, not \<open>(3 << 7) | 2\<close>.
\<close>

theorem nrpn_null_pair_not_cleared:
  "stored_param 0xB0 (run_cc 0xB0 [CC99 127, CC98 127]) = Some 16383 \<and>
   stored_param 0xB0 (run_cc 0xB0 [CC99 127, CC98 127]) \<noteq> None \<and>
   stored_param 0xB0 (run_cc 0xB0 [CC99 1, CC98 2, CC99 3]) = Some 130 \<and>
   stored_param 0xB0 (run_cc 0xB0 [CC99 1, CC98 2, CC99 3]) \<noteq> Some (push_bit 7 3 OR 2)"
  by (simp add: run_cc_def stored_param_def nrpnMSB_def nrpnLSB_def setParameter_def Let_def)

text \<open>
  C1 (amended). For every sequence of CC 99 / CC 98 messages on a channel: right after
  a CC 98 that follows at least one CC 99, the stored parameter of the channel is
  \<open>(last_msb << 7) | last_lsb\<close>, the pair (127,127) included (it stores 16383); a CC 99
  leaves the stored parameter as it was, and so does a CC 98 that arrives before any
  CC 99.
\<close>

theorem nrpn_parameter_after_sequence:
  "stored_param status (run_cc status (ms @ [CC98 l])) =
     (case last_msb ms of
        Some m \<Rightarrow> Some (push_bit 7 m OR l)
      | None \<Rightarrow> stored_param status (run_cc status ms)) \<and>
   stored_param status (run_cc status (ms @ [CC99 m'])) = stored_param status (run_cc status ms)"
  by (simp add: run_cc_snoc stored_param_nrpnLSB stored_param_nrpnMSB stored_msb_run_cc)

theorem nrpn_parameter_after_sequence_witness:
  "stored_param 0xB4 (run_cc 0xB4 ([CC99 1, CC98 2, CC99 127] @ [CC98 127])) = Some 16383 \<and>
   stored_param 0xB4 (run_cc 0xB4 ([CC99 1, CC98 2] @ [CC99 3])) = Some 130"
proof -
  have a: "last_msb [CC99 1, CC98 2, CC99 127] = Some 127" by simp
  have b: "stored_param 0xB4 (run_cc 0xB4 [CC99 1, CC98 2]) = Some 130"
    by (simp add: run_cc_def stored_param_def nrpnMSB_def nrpnLSB_def setParameter_def Let_def)
  show ?thesis
    using nrpn_parameter_after_sequence [of "0xB4" "[CC99 1, CC98 2, CC99 127]" 127 127]
          nrpn_parameter_after_sequence [of "0xB4" "[CC99 1, CC98 2]" 0 3]
    by (simp add: a b)
qed

subsection \<open>Properties of the beat-jump handler\<close>

lemma handleBeatJump_out:
  "snd (handleBeatJump eng now deck direction speed s) =
     (let beatSize = snd (trackRate now deck (beatjumpRate s));
          pulse = [SetValue deck ''beatjump_size'' (of_int beatSize),
                   SetValue deck (if direction > 0 then ''beatjump_forward'' else ''beatjump_backward'') 1];
          newTime = jumpTarget eng deck beatSize direction
      in if eng deck ''bpm'' > 0 \<and> eng deck ''duration'' > 0
         then if 0 \<le> newTime \<and> newTime \<le> eng deck ''duration'' then pulse
              else if newTime < 0 then [SetValue deck ''playposition'' 0]
              else [SetValue deck ''playposition'' 0.999]
         else pulse)"
proof (cases "trackRate now deck (beatjumpRate s)")
  case (Pair rs beatSize)
  then show ?thesis
    by (simp add: handleBeatJump_def jumpTarget_def Let_def)
qed

lemma handleBeatJump_state:
  "fst (handleBeatJump eng now deck direction speed s) =
     s\<lparr>beatjumpRate := fst (trackRate now deck (beatjumpRate s))\<rparr>"
proof (cases "trackRate now deck (beatjumpRate s)")
  case (Pair rs beatSize)
  then show ?thesis
    by (simp add: handleBeatJump_def Let_def)
qed

lemma first_tick_size: "snd (trackRate 1000 ''[Channel1]'' (beatjumpRate initial_state)) = 2"
  by (simp add: trackRate_def adjustMultiplier_def initial_state_def Let_def)

text \<open>
  C2 (the code at the failing input). The very first tick on a deck stores multiplier 1
  and then measures a gap of 0 ms against the timestamp it has just recorded, so the
  tick itself escalates to 2: ticks 10 ms apart use the sizes 2, 4, 8, 8, 8, 8 and ticks
  200 ms apart use 2, 1, 1, 1.
\<close>

theorem beatjump_first_tick_escalates:
  "beatSizes no_track ''[Channel1]'' 1 [1000] initial_state = [2] \<and>
   beatSizes no_track ''[Channel1]'' 1 [1000, 1010, 1020, 1030, 1040, 1050] initial_state
     = [2, 4, 8, 8, 8, 8] \<and>
   beatSizes no_track ''[Channel1]'' 1 [1000, 1200, 1400, 1600] initial_state = [2, 1, 1, 1] \<and>
   snd (handleBeatJump no_track 1000 ''[Channel1]'' 1 1 initial_state) =
     [SetValue ''[Channel1]'' ''beatjump_size'' 2, SetValue ''[Channel1]'' ''beatjump_forward'' 1]"
  by (simp add: handleBeatJump_def trackRate_def adjustMultiplier_def initial_state_def
                no_track_def Let_def)

text \<open>
  C5. With \<open>beatSize\<close> the multiplier the rate tracking yields for this tick: when bpm
  and duration are positive and the jump lands inside the track, the handler emits the
  jump size and one forward or backward pulse; when it would land before the start or
  after the end, the only effect is a write of the transport position (0 at the start,
  0.999 at the end) and no pulse is emitted; when bpm or duration is not positive the
  pulse is emitted without any check.
\<close>

theorem beatjump_pulse_unless_boundary:
  fixes eng :: engine
  assumes out: "out = snd (handleBeatJump eng now deck direction speed s)"
      and size: "beatSize = snd (trackRate now deck (beatjumpRate s))"
  shows "(0 < eng deck ''bpm'' \<and> 0 < eng deck ''duration'' \<and>
          0 \<le> jumpTarget eng deck beatSize direction \<and>
          jumpTarget eng deck beatSize direction \<le> eng deck ''duration''
          \<longrightarrow> out = [SetValue deck ''beatjump_size'' (of_int beatSize),
                    SetValue deck (if direction > 0 then ''beatjump_forward''
                                   else ''beatjump_backward'') 1]) \<and>
         (0 < eng deck ''bpm'' \<and> 0 < eng deck ''duration'' \<and>
          \<not> (0 \<le> jumpTarget eng deck beatSize direction \<and>
             jumpTarget eng deck beatSize direction \<le> eng deck ''duration'')
          \<longrightarrow> out = [SetValue deck ''playposition''
                       (if jumpTarget eng deck beatSize direction < 0 then 0 else 0.999)] \<and>
              filter is_pulse out = []) \<and>
         (eng deck ''bpm'' \<le> 0 \<or> eng deck ''duration'' \<le> 0
          \<longrightarrow> out = [SetValue deck ''beatjump_size'' (of_int beatSize),
                    SetValue deck (if direction > 0 then ''beatjump_forward''
                                   else ''beatjump_backward'') 1])"
  unfolding out size handleBeatJump_out Let_def by auto

theorem beatjump_pulse_unless_boundary_witness:
  "snd (handleBeatJump
          (\<lambda>grp key. if key = ''bpm'' then 120 else if key = ''duration'' then 200
                      else if key = ''playposition'' then 1 / 2 else 0)
          1000 ''[Channel1]'' 1 1 initial_state)
     = [SetValue ''[Channel1]'' ''beatjump_size'' 2, SetValue ''[Channel1]'' ''beatjump_forward'' 1] \<and>
   snd (handleBeatJump
          (\<lambda>grp key. if key = ''bpm'' then 120 else if key = ''duration'' then 200
                      else if key = ''playposition'' then 1 else 0)
          1000 ''[Channel1]'' 1 1 initial_state)
     = [SetValue ''[Channel1]'' ''playposition'' 0.999] \<and>
   snd (handleBeatJump no_track 1000 ''[Channel1]'' (- 1) 1 initial_state)
     = [SetValue ''[Channel1]'' ''beatjump_size'' 2, SetValue ''[Channel1]'' ''beatjump_backward'' 1]"
  using beatjump_pulse_unless_boundary [OF refl first_tick_size [symmetric],
          of "\<lambda>grp key. if key = ''bpm'' then 120 else if key = ''duration'' then 200
                        else if key = ''playposition'' then 1 / 2 else 0" 1 1]
        beatjump_pulse_unless_boundary [OF refl first_tick_size [symmetric],
          of "\<lambda>grp key. if key = ''bpm'' then 120 else if key = ''duration'' then 200
                        else if key = ''playposition'' then 1 else 0" 1 1]
        beatjump_pulse_unless_boundary [OF refl first_tick_size [symmetric], of no_track "- 1" 1]
  by (simp add: jumpTarget_def no_track_def)

text \<open>
  C9. With bpm and duration positive: a jump that would land after the end of the track
  writes the transport position 0.999 (not 1), one that would land before the start
  writes 0, and in both cases neither a pulse nor the jump size is written.
\<close>

theorem beatjump_clamp_values:
  fixes eng :: engine
  assumes info: "0 < eng deck ''bpm''" "0 < eng deck ''duration''"
      and out: "out = snd (handleBeatJump eng now deck direction speed s)"
      and size: "beatSize = snd (trackRate now deck (beatjumpRate s))"
  shows "(eng deck ''duration'' < jumpTarget eng deck beatSize direction
          \<longrightarrow> out = [SetValue deck ''playposition'' 0.999] \<and>
              out \<noteq> [SetValue deck ''playposition'' 1]) \<and>
         (jumpTarget eng deck beatSize direction < 0
          \<longrightarrow> out = [SetValue deck ''playposition'' 0]) \<and>
         (jumpTarget eng deck beatSize direction < 0 \<or>
          eng deck ''duration'' < jumpTarget eng deck beatSize direction
          \<longrightarrow> filter is_pulse out = [] \<and> filter is_size_write out = [])"
  unfolding out size handleBeatJump_out Let_def using info by auto

theorem beatjump_clamp_values_witness:
  "snd (handleBeatJump
          (\<lambda>grp key. if key = ''bpm'' then 120 else if key = ''duration'' then 200
                      else if key = ''playposition'' then 1 else 0)
          1000 ''[Channel1]'' 1 1 initial_state)
     = [SetValue ''[Channel1]'' ''playposition'' 0.999] \<and>
   snd (handleBeatJump
          (\<lambda>grp key. if key = ''bpm'' then 120 else if key = ''duration'' then 200 else 0)
          1000 ''[Channel1]'' (- 1) 1 initial_state)
     = [SetValue ''[Channel1]'' ''playposition'' 0]"
  using beatjump_clamp_values [OF _ _ refl first_tick_size [symmetric],
          of "\<lambda>grp key. if key = ''bpm'' then 120 else if key = ''duration'' then 200
                        else if key = ''playposition'' then 1 else 0" 1 1]
        beatjump_clamp_values [OF _ _ refl first_tick_size [symmetric],
          of "\<lambda>grp key. if key = ''bpm'' then 120 else if key = ''duration'' then 200 else 0"
             "- 1" 1]
  by (simp add: jumpTarget_def)

subsection \<open>Properties of the encoder mappings\<close>

text \<open>
  C10. Whatever the configuration, MIDI channels 1 and 2 map to zoom on
  \<^verbatim>\<open>[Channel1]\<close> with the fast and the slow zoom speed. Changing rotation, rotation
  direction and deck order changes neither the type nor the speed of any channel's
  mapping, and changes nothing at all outside channels 3 to 16.
\<close>

theorem zoom_channels_fixed:
  "generateEncoderMappings cfg 1
     = Some \<lparr>etype = ''zoom'', edeck = ''[Channel1]'', espeed = zoomFast cfg\<rparr> \<and>
   generateEncoderMappings cfg 2
     = Some \<lparr>etype = ''zoom'', edeck = ''[Channel1]'', espeed = zoomSlow cfg\<rparr> \<and>
   (\<forall>r d ds ch.
      map_option etype
        (generateEncoderMappings (cfg\<lparr>rotation := r, rotationDirection := d, deckOrder := ds\<rparr>) ch)
        = map_option etype (generateEncoderMappings cfg ch) \<and>
      map_option espeed
        (generateEncoderMappings (cfg\<lparr>rotation := r, rotationDirection := d, deckOrder := ds\<rparr>) ch)
        = map_option espeed (generateEncoderMappings cfg ch) \<and>
      (ch < 3 \<or> 16 < ch \<longrightarrow>
         generateEncoderMappings (cfg\<lparr>rotation := r, rotationDirection := d, deckOrder := ds\<rparr>) ch
           = generateEncoderMappings cfg ch))"
  by (simp add: generateEncoderMappings_def Let_def)

theorem zoom_channels_fixed_witness:
  "generateEncoderMappings default_config 1
     = Some \<lparr>etype = ''zoom'', edeck = ''[Channel1]'', espeed = 1\<rparr> \<and>
   generateEncoderMappings default_config 2
     = Some \<lparr>etype = ''zoom'', edeck = ''[Channel1]'', espeed = 0.1\<rparr> \<and>
   generateEncoderMappings
     (default_config\<lparr>rotation := 180, rotationDirection := ''clockwise'', deckOrder := [1, 2, 3, 4]\<rparr>) 2
     = Some \<lparr>etype = ''zoom'', edeck = ''[Channel1]'', espeed = 0.1\<rparr> \<and>
   map_option etype (generateEncoderMappings
     (default_config\<lparr>rotation := 180, rotationDirection := ''clockwise'', deckOrder := [1, 2, 3, 4]\<rparr>) 7)
     = Some ''beatjump''"
proof -
  let ?cfg' = "default_config\<lparr>rotation := 180, rotationDirection := ''clockwise'',
                 deckOrder := [1, 2, 3, 4]\<rparr>"
  note fixed = zoom_channels_fixed [of default_config]
  have z1: "generateEncoderMappings default_config 1
              = Some \<lparr>etype = ''zoom'', edeck = ''[Channel1]'', espeed = 1\<rparr>"
    using fixed by (simp add: default_config_def)
  have z2: "generateEncoderMappings default_config 2
              = Some \<lparr>etype = ''zoom'', edeck = ''[Channel1]'', espeed = 0.1\<rparr>"
    using fixed by (simp add: default_config_def)
  have same2: "generateEncoderMappings ?cfg' 2 = generateEncoderMappings default_config 2"
    using fixed by simp
  have ty7: "map_option etype (generateEncoderMappings ?cfg' 7)
               = map_option etype (generateEncoderMappings default_config 7)"
    using fixed by blast
  have a: "map_option etype (generateEncoderMappings default_config 7) = Some ''beatjump''"
    by (simp add: generateEncoderMappings_def Let_def)
  show ?thesis
    using z1 z2 same2 ty7 a by simp
qed

subsection \<open>Properties of the motion dispatch\<close>

lemma handleZoom_nrpnParams:
  "handleZoom g eng tid deck direction speed (s\<lparr>nrpnParams := p\<rparr>) =
     (case handleZoom g eng tid deck direction speed s of (s', out) \<Rightarrow> (s'\<lparr>nrpnParams := p\<rparr>, out))"
  by (simp add: handleZoom_def Let_def split: prod.splits)

lemma handleBeatJump_nrpnParams:
  "handleBeatJump eng now deck direction speed (s\<lparr>nrpnParams := p\<rparr>) =
     (case handleBeatJump eng now deck direction speed s of (s', out) \<Rightarrow> (s'\<lparr>nrpnParams := p\<rparr>, out))"
  by (simp add: handleBeatJump_def Let_def split: prod.splits)

lemma handleSuperknob_nrpnParams:
  "handleSuperknob g eng tid deck direction speed (s\<lparr>nrpnParams := p\<rparr>) =
     map_sum id (\<lambda>(s', out). (s'\<lparr>nrpnParams := p\<rparr>, out))
       (handleSuperknob g eng tid deck direction speed s)"
  by (simp add: handleSuperknob_def Let_def split: prod.splits)

text \<open>
  C6. \<open>processMotion\<close> never looks at the NRPN parameter table: with any table \<open>p\<close> in
  place of the current one it does the same and leaves \<open>p\<close> as it is. On a channel
  that has a mapping \<open>m\<close>, the motion goes to the handler of the mapped type with
  direction +1 for an increment and -1 for a decrement and with speed
  \<open>value * (m.speed || 1.0)\<close>. The witness is the scenario of the claim: after the pair
  (127,127) on MIDI channel 5, an increment of 10 still turns the filter knob of the
  mapped deck from 0.5 to 0.54.
\<close>

theorem motion_dispatched_without_parameter:
  "processMotion g eng tid now channel increment v (s\<lparr>nrpnParams := p\<rparr>) =
     map_sum id (\<lambda>(s', out). (s'\<lparr>nrpnParams := p\<rparr>, out))
       (processMotion g eng tid now channel increment v s) \<and>
   (\<forall>m. EncoderMappings g (channel + 1) = Some m \<longrightarrow>
      (let direction = (if increment then 1 else - 1);
           speed = of_int v * (if espeed m = 0 then 1 else espeed m)
       in (etype m = ''zoom'' \<longrightarrow>
             processMotion g eng tid now channel increment v s
               = Inr (handleZoom g eng tid (edeck m) direction speed s)) \<and>
          (etype m = ''beatgrid'' \<longrightarrow>
             processMotion g eng tid now channel increment v s
               = Inr (handleBeatgrid (edeck m) direction speed s)) \<and>
          (etype m = ''jogwheel'' \<longrightarrow>
             processMotion g eng tid now channel increment v s
               = Inr (handleJogwheel (edeck m) direction speed s)) \<and>
          (etype m = ''beatjump'' \<longrightarrow>
             processMotion g eng tid now channel increment v s
               = Inr (handleBeatJump eng now (edeck m) direction speed s)) \<and>
          (etype m = ''superknob'' \<longrightarrow>
             processMotion g eng tid now channel increment v s
               = handleSuperknob g eng tid (edeck m) direction speed s)))"
proof (intro conjI allI impI)
  show "processMotion g eng tid now channel increment v (s\<lparr>nrpnParams := p\<rparr>) =
     map_sum id (\<lambda>(s', out). (s'\<lparr>nrpnParams := p\<rparr>, out))
       (processMotion g eng tid now channel increment v s)"
    by (simp add: processMotion_def Let_def handleZoom_nrpnParams handleBeatJump_nrpnParams
          handleSuperknob_nrpnParams handleBeatgrid_def handleJogwheel_def
          split: option.splits prod.splits)
next
  fix m assume "EncoderMappings g (channel + 1) = Some m"
  then show "let direction = (if increment then 1 else - 1);
           speed = of_int v * (if espeed m = 0 then 1 else espeed m)
       in (etype m = ''zoom'' \<longrightarrow>
             processMotion g eng tid now channel increment v s
               = Inr (handleZoom g eng tid (edeck m) direction speed s)) \<and>
          (etype m = ''beatgrid'' \<longrightarrow>
             processMotion g eng tid now channel increment v s
               = Inr (handleBeatgrid (edeck m) direction speed s)) \<and>
          (etype m = ''jogwheel'' \<longrightarrow>
             processMotion g eng tid now channel increment v s
               = Inr (handleJogwheel (edeck m) direction speed s)) \<and>
          (etype m = ''beatjump'' \<longrightarrow>
             processMotion g eng tid now channel increment v s
               = Inr (handleBeatJump eng now (edeck m) direction speed s)) \<and>
          (etype m = ''superknob'' \<longrightarrow>
             processMotion g eng tid now channel increment v s
               = handleSuperknob g eng tid (edeck m) direction speed s)"
    by (simp add: processMotion_def Let_def)
qed

lemma channel5_mapping: "EncoderMappings (load default_config) (4 + 1)
   = Some \<lparr>etype = ''superknob'', edeck = ''[Channel2]'', espeed = 4\<rparr>"
  by (simp add: load_def generateEncoderMappings_def Let_def encoderToDeck_def
       rotatedGridToDeckIndex_def default_config_def gridToDeckIndex_def js_index_def
       template_Channel_def decimal.simps)

theorem motion_dispatched_without_parameter_witness:
  "stored_param 0xB4 (nrpnParams (selectParameter 0xB4 (CC98 127) (selectParameter 0xB4 (CC99 127) initial_state))) = Some 16383 \<and>
   (\<exists>s' leds.
      nrpnIncrement (load default_config) (\<lambda>grp key. if key = ''super1'' then 1 / 2 else 0) 1 1000 0xB4 10
        (selectParameter 0xB4 (CC98 127) (selectParameter 0xB4 (CC99 127) initial_state))
      = Inr (s', SetValue ''[QuickEffectRack1_[Channel2]]'' ''super1'' 0.54 # leds))"
proof -
  let ?g = "load default_config"
  let ?eng = "\<lambda>grp key. if key = ''super1'' then 1 / 2 else (0::real)"
  let ?p = "nrpnParams (selectParameter 0xB4 (CC98 127) (selectParameter 0xB4 (CC99 127) initial_state))"
  have st: "selectParameter 0xB4 (CC98 127) (selectParameter 0xB4 (CC99 127) initial_state)
              = initial_state\<lparr>nrpnParams := ?p\<rparr>"
    by (simp add: selectParameter_def)
  have par: "stored_param 0xB4 ?p = Some 16383"
    by (simp add: selectParameter_def initial_state_def stored_param_def nrpnMSB_def
          nrpnLSB_def setParameter_def Let_def)
  note t = motion_dispatched_without_parameter [where g = ?g and eng = ?eng and tid = 1
      and now = 1000 and channel = 4 and increment = True and v = 10 and s = initial_state
      and p = ?p]
  from t have indep: "processMotion ?g ?eng 1 1000 4 True 10 (initial_state\<lparr>nrpnParams := ?p\<rparr>) =
     map_sum id (\<lambda>(s', out). (s'\<lparr>nrpnParams := ?p\<rparr>, out))
       (processMotion ?g ?eng 1 1000 4 True 10 initial_state)"
    by blast
  from t channel5_mapping have disp: "processMotion ?g ?eng 1 1000 4 True 10 initial_state
      = handleSuperknob ?g ?eng 1 ''[Channel2]'' 1 (10 * 4) initial_state"
    by (simp add: Let_def)
  have hs: "\<exists>s' leds. handleSuperknob ?g ?eng 1 ''[Channel2]'' 1 (10 * 4) initial_state
      = Inr (s', SetValue ''[QuickEffectRack1_[Channel2]]'' ''super1'' 0.54 # leds)"
    by (simp add: handleSuperknob_def has_digit_def Let_def split: prod.splits)
  have inc: "nrpnIncrement ?g ?eng 1 1000 0xB4 10 (initial_state\<lparr>nrpnParams := ?p\<rparr>)
      = processMotion ?g ?eng 1 1000 4 True 10 (initial_state\<lparr>nrpnParams := ?p\<rparr>)"
    by (simp add: nrpnIncrement_def)
  from hs obtain s' leds where "handleSuperknob ?g ?eng 1 ''[Channel2]'' 1 (10 * 4) initial_state
      = Inr (s', SetValue ''[QuickEffectRack1_[Channel2]]'' ''super1'' 0.54 # leds)" by blast
  with indep disp inc have "nrpnIncrement ?g ?eng 1 1000 0xB4 10 (initial_state\<lparr>nrpnParams := ?p\<rparr>)
      = Inr (s'\<lparr>nrpnParams := ?p\<rparr>, SetValue ''[QuickEffectRack1_[Channel2]]'' ''super1'' 0.54 # leds)"
    by simp
  with par st show ?thesis by metis
qed

subsection \<open>Properties of the pad-state objects and of the differential update\<close>

lemma set_obj_add [simp]: "set (obj_add k m) = insert k (set m)"
  by (induction m) auto

lemma sorted_obj_add: "sorted_wrt (<) m \<Longrightarrow> sorted_wrt (<) (obj_add k m)"
  by (induction m) auto

lemma obj_add_member: "sorted_wrt (<) m \<Longrightarrow> k \<in> set m \<Longrightarrow> obj_add k m = m"
  by (induction m) auto

lemma set_fold_obj_add: "set (fold obj_add xs acc) = set xs \<union> set acc"
  by (induction xs arbitrary: acc) auto

lemma sorted_fold_obj_add: "sorted_wrt (<) acc \<Longrightarrow> sorted_wrt (<) (fold obj_add xs acc)"
  by (induction xs arbitrary: acc) (auto simp: sorted_obj_add)

lemma set_targetPadStates [simp]: "set (targetPadStates n orderedPads) = set (take n orderedPads)"
  by (simp add: targetPadStates_def set_fold_obj_add)

lemma sorted_targetPadStates [simp]: "sorted_wrt (<) (targetPadStates n orderedPads)"
  by (simp add: targetPadStates_def sorted_fold_obj_add)

lemma strict_sorted_unique:
  "sorted_wrt (<) xs \<Longrightarrow> sorted_wrt (<) ys \<Longrightarrow> set xs = set ys \<Longrightarrow> xs = (ys::nat list)"
  using strict_sorted_equal by blast

lemma strict_sorted_distinct: "sorted_wrt (<) (xs::nat list) \<Longrightarrow> distinct xs"
  using strict_sorted_iff by blast

lemma setPadLEDs_Nil [simp]: "setPadLEDs st [] = []"
  by (simp add: setPadLEDs_def)

lemma setPadLEDs_Cons [simp]: "setPadLEDs st (n # ns) = setPadLED n st @ setPadLEDs st ns"
  by (simp add: setPadLEDs_def)

lemma setPadLEDs_append [simp]: "setPadLEDs st (xs @ ys) = setPadLEDs st xs @ setPadLEDs st ys"
  by (simp add: setPadLEDs_def)

lemma turnOffStale_fold:
  "distinct xs \<Longrightarrow> set xs \<subseteq> set c \<Longrightarrow>
   fold (\<lambda>note (cur, out).
             if obj_has cur note \<and> \<not> obj_has target note
             then (obj_delete note cur, out @ setPadLED note False)
             else (cur, out)) xs (c, out)
   = (filter (\<lambda>k. k \<notin> set xs \<or> k \<in> set target) c,
      out @ setPadLEDs False (filter (\<lambda>k. k \<notin> set target) xs))"
proof (induction xs arbitrary: c out)
  case Nil
  then show ?case by simp
next
  case (Cons x xs)
  show ?case
  proof (cases "x \<in> set target")
    case True
    have "filter (\<lambda>k. k \<notin> set xs \<or> k \<in> set target) c
            = filter (\<lambda>k. k \<notin> set (x # xs) \<or> k \<in> set target) c"
      using True by (intro filter_cong) auto
    with Cons True show ?thesis by (simp add: obj_has_def)
  next
    case False
    have sub: "set xs \<subseteq> set (removeAll x c)" using Cons.prems by auto
    have "filter (\<lambda>k. k \<notin> set xs \<or> k \<in> set target) (removeAll x c)
            = filter (\<lambda>k. k \<notin> set (x # xs) \<or> k \<in> set target) c"
      using False by (induction c) auto
    with Cons False sub show ?thesis by (simp add: obj_has_def obj_delete_def)
  qed
qed

lemma turnOffStale_eq:
  "distinct cur \<Longrightarrow>
   turnOffStale target cur
     = (filter (\<lambda>k. k \<in> set target) cur, setPadLEDs False (filter (\<lambda>k. k \<notin> set target) cur))"
proof -
  assume d: "distinct cur"
  have "filter (\<lambda>k. k \<notin> set cur \<or> k \<in> set target) cur = filter (\<lambda>k. k \<in> set target) cur"
    by (intro filter_cong) auto
  with turnOffStale_fold [OF d subset_refl, of target "[]"] show ?thesis
    by (simp add: turnOffStale_def)
qed

lemma turnOnNew_fold:
  "distinct ts \<Longrightarrow> sorted_wrt (<) c \<Longrightarrow>
   fold (\<lambda>note (cur, out).
             if \<not> obj_has cur note
             then (obj_add note cur, out @ setPadLED note True)
             else (cur, out)) ts (c, out)
   = (fold obj_add ts c, out @ setPadLEDs True (filter (\<lambda>k. k \<notin> set c) ts))"
proof (induction ts arbitrary: c out)
  case Nil
  then show ?case by simp
next
  case (Cons t ts)
  show ?case
  proof (cases "t \<in> set c")
    case True
    with Cons show ?thesis by (simp add: obj_has_def obj_add_member)
  next
    case False
    have "filter (\<lambda>k. k \<notin> set (obj_add t c)) ts = filter (\<lambda>k. k \<notin> set c) ts"
      using Cons.prems by (intro filter_cong) auto
    with Cons False show ?thesis by (simp add: obj_has_def sorted_obj_add)
  qed
qed

lemma sorted_filter_lt: "sorted_wrt (<) (xs::nat list) \<Longrightarrow> sorted_wrt (<) (filter P xs)"
  by (simp add: sorted_wrt_filter)

lemma differentialUpdate_eq:
  assumes t: "sorted_wrt (<) target" and c: "sorted_wrt (<) cur"
  shows "differentialUpdate target cur
           = (target, setPadLEDs False (filter (\<lambda>k. k \<notin> set target) cur) @
                      setPadLEDs True (filter (\<lambda>k. k \<notin> set cur) target))"
proof -
  let ?c1 = "filter (\<lambda>k. k \<in> set target) cur"
  have off: "turnOffStale target cur = (?c1, setPadLEDs False (filter (\<lambda>k. k \<notin> set target) cur))"
    using c by (simp add: turnOffStale_eq strict_sorted_distinct)
  have s1: "sorted_wrt (<) ?c1" using c by (rule sorted_filter_lt)
  have on: "turnOnNew target ?c1
              = (fold obj_add target ?c1, setPadLEDs True (filter (\<lambda>k. k \<notin> set ?c1) target))"
    using turnOnNew_fold [OF strict_sorted_distinct [OF t] s1, of "[]"]
    by (simp add: turnOnNew_def)
  have f: "filter (\<lambda>k. k \<notin> set ?c1) target = filter (\<lambda>k. k \<notin> set cur) target"
    by (intro filter_cong) auto
  have "set (fold obj_add target ?c1) = set target"
    by (auto simp: set_fold_obj_add)
  then have fin: "fold obj_add target ?c1 = target"
    using sorted_fold_obj_add [OF s1] t strict_sorted_unique by blast
  have on': "turnOnNew target ?c1 = (target, setPadLEDs True (filter (\<lambda>k. k \<notin> set cur) target))"
    unfolding on f fin ..
  show ?thesis
    by (simp only: differentialUpdate_def off Let_def prod.case on')
qed

subsection \<open>The layout and the renderers at the shipped configuration\<close>

lemma default_GRID:
  "GRID (PadLayout (load default_config))
     = [[51, 47, 43, 39], [50, 46, 42, 38], [49, 45, 41, 37], [48, 44, 40, 36]]"
  by (simp add: load_def generateLayout_def default_config_def rotateGrid_def js_rem_def
        rotateLoop.simps rotateStep_def PHYSICAL_GRID_def Let_def upt_conv_Cons)

lemma default_NOTES:
  "NOTES (PadLayout (load default_config))
     = [51, 47, 43, 39, 50, 46, 42, 38, 49, 45, 41, 37, 48, 44, 40, 36]"
  by (simp add: load_def generateLayout_def default_config_def rotateGrid_def js_rem_def
        rotateLoop.simps rotateStep_def PHYSICAL_GRID_def Let_def upt_conv_Cons)

lemma default_order:
  "getBottomLeftToTopRightOrder (load default_config)
     = [48, 44, 40, 36, 49, 45, 41, 37, 50, 46, 42, 38, 51, 47, 43, 39]"
  by (simp add: getBottomLeftToTopRightOrder_def default_GRID)

lemma default_reverse_order:
  "topRightToBottomLeftOrder (load default_config)
     = [39, 43, 47, 51, 38, 42, 46, 50, 37, 41, 45, 49, 36, 40, 44, 48]"
  by (simp add: topRightToBottomLeftOrder_def default_GRID)

lemma clampedSteps_values:
  "clampedSteps 8 = 1" "clampedSteps 20 = 3" "clampedSteps 1 = 0" "clampedSteps 100 = 15"
  by (simp_all add: clampedSteps_def MIN_ZOOM_def MAX_ZOOM_def Let_def)

lemma zoomTarget_values:
  "zoomTarget (load default_config) 8 = [44, 48]"
  "zoomTarget (load default_config) 20 = [36, 40, 44, 48]"
  by (simp_all add: zoomTarget_def clampedSteps_values default_order targetPadStates_def)

lemma clampedPads_values: "clampedPads (1 / 2) = 16" "clampedPads (3 / 4) = 8" "clampedPads 1 = 0"
  by (simp_all add: clampedPads_def Let_def)

lemma superknobTarget_values:
  "superknobTarget (load default_config) (3 / 4) = [38, 39, 42, 43, 46, 47, 50, 51]"
  "superknobTarget (load default_config) 1 = []"
  by (simp_all add: superknobTarget_def clampedPads_values default_reverse_order
        targetPadStates_def)

subsection \<open>LED traffic of the feedback renderers\<close>

lemma led_messages_Nil [simp]: "led_messages [] = []"
  by (simp add: led_messages_def)

lemma led_messages_append [simp]: "led_messages (xs @ ys) = led_messages xs @ led_messages ys"
  by (simp add: led_messages_def)

lemma led_messages_setPadLED [simp]: "led_messages (setPadLED note st) = setPadLED note st"
  by (simp add: led_messages_def setPadLED_def Let_def)

lemma led_messages_setPadLEDs [simp]: "led_messages (setPadLEDs st ns) = setPadLEDs st ns"
  by (induction ns) simp_all

lemma led_messages_allPadsOff [simp]: "led_messages (allPadsOff g) = allPadsOff g"
  using led_messages_setPadLEDs [of False] by (simp add: allPadsOff_def setPadLEDs_def)

lemma led_messages_stopTimerIfSet [simp]: "led_messages (stopTimerIfSet t) = []"
  by (simp add: led_messages_def stopTimerIfSet_def split: option.splits)

lemma led_messages_BeginTimer [simp]: "led_messages [BeginTimer d] = []"
  by (simp add: led_messages_def)

lemma showZoomFeedback_same:
  "sameZoomLevel deck v zf \<Longrightarrow>
   showZoomFeedback g tid deck v zf
     = (zf\<lparr>timer := Some tid\<rparr>,
        stopTimerIfSet (timer zf) @
        [BeginTimer (if zoomFeedback_duration (Config g) = 0 then ZOOM_FEEDBACK_DURATION
                     else zoomFeedback_duration (Config g))])"
  by (simp add: showZoomFeedback_def sameZoomLevel_def Let_def)

lemma showZoomFeedback_changed:
  assumes "\<not> sameZoomLevel deck v zf" and "sorted_wrt (<) (currentPadStates zf)"
  shows "showZoomFeedback g tid deck v zf
     = (zf\<lparr>active := True, fb_deck := Some deck, lastValue := Some (clampedSteps v),
            currentPadStates := zoomTarget g v, timer := Some tid\<rparr>,
        stopTimerIfSet (timer zf) @
        (if currentPadStates zf = [] then allPadsOff g else []) @
        (setPadLEDs False (filter (\<lambda>n. n \<notin> set (zoomTarget g v)) (currentPadStates zf)) @
         setPadLEDs True (filter (\<lambda>n. n \<notin> set (currentPadStates zf)) (zoomTarget g v))) @
        [BeginTimer (if zoomFeedback_duration (Config g) = 0 then ZOOM_FEEDBACK_DURATION
                     else zoomFeedback_duration (Config g))])"
proof -
  have d: "differentialUpdate (zoomTarget g v) (currentPadStates zf)
      = (zoomTarget g v,
         setPadLEDs False (filter (\<lambda>n. n \<notin> set (zoomTarget g v)) (currentPadStates zf)) @
         setPadLEDs True (filter (\<lambda>n. n \<notin> set (currentPadStates zf)) (zoomTarget g v)))"
    using assms(2) by (intro differentialUpdate_eq) (simp_all add: zoomTarget_def)
  have n: "\<not> (active zf \<and> lastValue zf = Some (clampedSteps v) \<and> fb_deck zf = Some deck)"
    using assms(1) by (simp add: sameZoomLevel_def)
  show ?thesis
    unfolding showZoomFeedback_def Let_def if_not_P [OF n] zoomTarget_def [symmetric] d
    by simp
qed

lemma showSuperknobFeedback_same:
  "sameSuperknobValue deck v sf \<Longrightarrow>
   showSuperknobFeedback g tid deck v sf
     = (sf\<lparr>timer := Some tid\<rparr>, stopTimerIfSet (timer sf) @ [BeginTimer ZOOM_FEEDBACK_DURATION])"
  by (simp add: showSuperknobFeedback_def sameSuperknobValue_def Let_def)

lemma showSuperknobFeedback_changed:
  assumes "\<not> sameSuperknobValue deck v sf" and "sorted_wrt (<) (currentPadStates sf)"
  shows "showSuperknobFeedback g tid deck v sf
     = (sf\<lparr>active := True, fb_deck := Some deck, lastValue := Some v,
            currentPadStates := superknobTarget g v, timer := Some tid\<rparr>,
        stopTimerIfSet (timer sf) @
        (if currentPadStates sf = [] then allPadsOff g else []) @
        (setPadLEDs False (filter (\<lambda>n. n \<notin> set (superknobTarget g v)) (currentPadStates sf)) @
         setPadLEDs True (filter (\<lambda>n. n \<notin> set (currentPadStates sf)) (superknobTarget g v))) @
        [BeginTimer ZOOM_FEEDBACK_DURATION])"
proof -
  have d: "differentialUpdate (superknobTarget g v) (currentPadStates sf)
      = (superknobTarget g v,
         setPadLEDs False (filter (\<lambda>n. n \<notin> set (superknobTarget g v)) (currentPadStates sf)) @
         setPadLEDs True (filter (\<lambda>n. n \<notin> set (currentPadStates sf)) (superknobTarget g v)))"
    using assms(2) by (intro differentialUpdate_eq) (simp_all add: superknobTarget_def)
  have n: "\<not> (active sf \<and> lastValue sf = Some v \<and> fb_deck sf = Some deck)"
    using assms(1) by (simp add: sameSuperknobValue_def)
  show ?thesis
    unfolding showSuperknobFeedback_def Let_def if_not_P [OF n] superknobTarget_def [symmetric] d
    by simp
qed

lemma zoom_after_8:
  "fst (showZoomFeedback (load default_config) 7 ''[Channel1]'' 8 idle_feedback)
     = \<lparr>active = True, fb_deck = Some ''[Channel1]'', timer = Some 7, lastValue = Some 1,
        currentPadStates = [44, 48]\<rparr>"
proof -
  have n: "\<not> sameZoomLevel ''[Channel1]'' 8 (idle_feedback :: int feedback)"
    by (simp add: sameZoomLevel_def idle_feedback_def)
  have s: "sorted_wrt (<) (currentPadStates (idle_feedback :: int feedback))"
    by (simp add: idle_feedback_def)
  show ?thesis
    by (subst showZoomFeedback_changed [OF n s])
       (simp add: zoomTarget_values clampedSteps_values idle_feedback_def)
qed

lemma superknob_after_centre:
  "fst (showSuperknobFeedback (load default_config) 7 ''[Channel1]'' (1 / 2) idle_feedback)
     = \<lparr>active = True, fb_deck = Some ''[Channel1]'', timer = Some 7, lastValue = Some (1 / 2),
        currentPadStates = [36, 37, 38, 39, 40, 41, 42, 43, 44, 45, 46, 47, 48, 49, 50, 51]\<rparr>"
proof -
  have n: "\<not> sameSuperknobValue ''[Channel1]'' (1 / 2) (idle_feedback :: real feedback)"
    by (simp add: sameSuperknobValue_def idle_feedback_def)
  have s: "sorted_wrt (<) (currentPadStates (idle_feedback :: real feedback))"
    by (simp add: idle_feedback_def)
  have t: "superknobTarget (load default_config) (1 / 2)
             = [36, 37, 38, 39, 40, 41, 42, 43, 44, 45, 46, 47, 48, 49, 50, 51]"
    by (simp add: superknobTarget_def clampedPads_values default_reverse_order
          targetPadStates_def)
  show ?thesis
    by (subst showSuperknobFeedback_changed [OF n s]) (simp add: t idle_feedback_def)
qed

subsection \<open>The generated layouts and the zoom session\<close>

lemma rotateStep_orientations:
  "g \<in> set orientations \<Longrightarrow> rotateStep c g \<in> set orientations"
  by (cases c) (auto simp: orientations_def PHYSICAL_GRID_def rotateStep_def Let_def upt_conv_Cons)

lemma rotateLoop_orientations:
  "g \<in> set orientations \<Longrightarrow> rotateLoop c r i g \<in> set orientations"
proof (induction c r i g rule: rotateLoop.induct)
  case (1 clockwise rotations i rotated)
  show ?case
  proof (cases "real i < rotations")
    case True
    with 1 show ?thesis
      by (subst rotateLoop.simps) (simp add: rotateStep_orientations)
  next
    case False
    with 1 show ?thesis by (subst rotateLoop.simps) simp
  qed
qed

lemma generateLayout_orientations: "GRID (generateLayout cfg) \<in> set orientations"
proof -
  have "PHYSICAL_GRID \<in> set orientations" by (simp add: orientations_def)
  then show ?thesis
    by (simp add: generateLayout_def rotateGrid_def Let_def rotateLoop_orientations)
qed

lemma orientations_order:
  "g \<in> set orientations \<Longrightarrow> distinct (concat (rev g)) \<and> length (concat (rev g)) = 16"
  by (auto simp: orientations_def PHYSICAL_GRID_def)

lemma order_distinct:
  assumes "PadLayout g = generateLayout cfg"
  shows "distinct (getBottomLeftToTopRightOrder g)"
    and "length (getBottomLeftToTopRightOrder g) = 16"
  using orientations_order [OF generateLayout_orientations [of cfg]] assms
  by (simp_all add: getBottomLeftToTopRightOrder_def)

lemma length_targetPadStates:
  assumes "distinct orderedPads"
  shows "length (targetPadStates n orderedPads) = min n (length orderedPads)"
proof -
  have "length (targetPadStates n orderedPads) = card (set (targetPadStates n orderedPads))"
    by (rule distinct_card [symmetric, OF strict_sorted_distinct [OF sorted_targetPadStates]])
  also have "\<dots> = card (set (take n orderedPads))" by simp
  also have "\<dots> = length (take n orderedPads)"
    using assms by (simp add: distinct_card)
  finally show ?thesis by simp
qed

lemma clampedSteps_range: "0 \<le> clampedSteps v \<and> clampedSteps v \<le> 15"
  by (simp add: clampedSteps_def Let_def)

lemma clampedSteps_formula:
  "clampedSteps v = max 0 (min 15 \<lfloor>(v - 1) / (100 - 1) * 16\<rfloor>)"
  by (simp add: clampedSteps_def MIN_ZOOM_def MAX_ZOOM_def Let_def)

lemma zoomSessionOk_idle: "zoomSessionOk g idle_feedback"
  by (simp add: zoomSessionOk_def idle_feedback_def)

lemma zoomSessionOk_show:
  assumes "zoomSessionOk g zf"
  shows "zoomSessionOk g (fst (showZoomFeedback g tid deck v zf)) \<and>
         currentPadStates (fst (showZoomFeedback g tid deck v zf)) = zoomTarget g v"
proof (cases "sameZoomLevel deck v zf")
  case True
  with assms show ?thesis
    by (auto simp: showZoomFeedback_same zoomSessionOk_def sameZoomLevel_def zoomTarget_def)
next
  case False
  from assms have s: "sorted_wrt (<) (currentPadStates zf)" by (simp add: zoomSessionOk_def)
  show ?thesis
    by (simp add: showZoomFeedback_changed [OF False s] zoomSessionOk_def zoomTarget_def)
qed

subsection \<open>Properties of the zoom handler\<close>

lemma engine_after_append [simp]:
  "engine_after (xs @ ys) eng = engine_after ys (engine_after xs eng)"
  by (simp add: engine_after_def)

lemma engine_after_Cons:
  "engine_after (e # out) eng = engine_after out (write_effect e eng)"
  by (simp add: engine_after_def)

lemma engine_after_no_write:
  "list_all (\<lambda>e. \<not> is_write e) out \<Longrightarrow> engine_after out eng = eng"
proof (induction out arbitrary: eng)
  case Nil
  then show ?case by (simp add: engine_after_def)
next
  case (Cons e out)
  then have "engine_after out eng = eng" by simp
  with Cons.prems show ?case by (cases e) (simp_all add: engine_after_def)
qed

lemma no_write_setPadLED: "list_all (\<lambda>e. \<not> is_write e) (setPadLED note st)"
  by (simp add: setPadLED_def Let_def)

lemma no_write_allPadsOff: "list_all (\<lambda>e. \<not> is_write e) (allPadsOff g)"
  by (simp add: allPadsOff_def list_all_iff no_write_setPadLED [unfolded list_all_iff])

lemma no_write_stopTimerIfSet: "list_all (\<lambda>e. \<not> is_write e) (stopTimerIfSet t)"
  by (simp add: stopTimerIfSet_def split: option.splits)

lemma no_write_turnOff_fold:
  "list_all (\<lambda>e. \<not> is_write e) out \<Longrightarrow>
   list_all (\<lambda>e. \<not> is_write e)
     (snd (fold (\<lambda>note (cur, out).
             if obj_has cur note \<and> \<not> obj_has target note
             then (obj_delete note cur, out @ setPadLED note False)
             else (cur, out)) xs (c, out)))"
  by (induction xs arbitrary: c out) (simp_all add: no_write_setPadLED)

lemma no_write_turnOn_fold:
  "list_all (\<lambda>e. \<not> is_write e) out \<Longrightarrow>
   list_all (\<lambda>e. \<not> is_write e)
     (snd (fold (\<lambda>note (cur, out).
             if \<not> obj_has cur note
             then (obj_add note cur, out @ setPadLED note True)
             else (cur, out)) xs (c, out)))"
  by (induction xs arbitrary: c out) (simp_all add: no_write_setPadLED)

lemma no_write_differentialUpdate:
  "list_all (\<lambda>e. \<not> is_write e) (snd (differentialUpdate target cur))"
proof -
  have a: "list_all (\<lambda>e. \<not> is_write e) (snd (turnOffStale target cur))"
    unfolding turnOffStale_def by (rule no_write_turnOff_fold) simp
  have b: "list_all (\<lambda>e. \<not> is_write e) (snd (turnOnNew target c1))" for c1
    unfolding turnOnNew_def by (rule no_write_turnOn_fold) simp
  show ?thesis
    using a b by (simp add: differentialUpdate_def Let_def case_prod_beta)
qed

lemma no_write_showZoomFeedback:
  "list_all (\<lambda>e. \<not> is_write e) (snd (showZoomFeedback g tid deck v zf))"
  using no_write_differentialUpdate
    [of "targetPadStates (nat (clampedSteps v) + 1) (getBottomLeftToTopRightOrder g)"
        "currentPadStates zf"]
  by (simp add: showZoomFeedback_def Let_def no_write_stopTimerIfSet no_write_allPadsOff
        case_prod_beta)

lemma handleZoom_write:
  "engine_after (snd (handleZoom g eng tid deck direction speed s)) eng
     = eng(deck := (eng deck)(''waveform_zoom'' :=
         max MIN_ZOOM (min MAX_ZOOM (eng deck ''waveform_zoom'' *
           (1 + of_int (if reverseDirection (Config g) then - direction else direction)
                  * speed * 0.05)))))"
proof (cases "zoomFeedback_enabled (Config g)")
  case True
  then show ?thesis
    by (simp add: handleZoom_def Let_def case_prod_beta engine_after_Cons
          engine_after_no_write [OF no_write_showZoomFeedback])
next
  case False
  then show ?thesis by (simp add: handleZoom_def Let_def engine_after_Cons engine_after_def)
qed

lemma turnZoom_engine:
  "fst (turnZoom g tid deck direction speed es)
     = (fst es)(deck := (fst es deck)(''waveform_zoom'' :=
         max MIN_ZOOM (min MAX_ZOOM (fst es deck ''waveform_zoom'' *
           (1 + of_int (if reverseDirection (Config g) then - direction else direction)
                  * speed * 0.05)))))"
  using handleZoom_write [of g "fst es" tid deck direction speed "snd es"]
  by (simp add: turnZoom_def Let_def case_prod_beta)

lemma Config_load [simp]: "Config (load cfg) = cfg"
  by (simp add: load_def)

lemma clamp_round_trip:
  fixes z a :: real
  assumes a0: "0 \<le> a" and z1: "1 \<le> z" and lo: "1 \<le> z * (1 - a)" and hi: "z * (1 + a) \<le> 100"
  shows "max 1 (min 100 (max 1 (min 100 (z * (1 - a))) * (1 + a))) = z * (1 - a\<^sup>2)"
    and "max 1 (min 100 (max 1 (min 100 (z * (1 + a))) * (1 - a))) = z * (1 - a\<^sup>2)"
proof -
  have za: "0 \<le> z * a" using z1 a0 by simp
  have up1: "1 \<le> z * (1 + a)" using z1 za by (simp add: algebra_simps)
  have dn100: "z * (1 - a) \<le> 100" using hi za by (simp add: algebra_simps)
  have prod: "z * (1 - a) * (1 + a) = z * (1 - a\<^sup>2)"
    by (simp add: algebra_simps power2_eq_square)
  have prod': "z * (1 + a) * (1 - a) = z * (1 - a\<^sup>2)"
    by (simp add: algebra_simps power2_eq_square)
  have p1: "1 \<le> z * (1 - a\<^sup>2)"
  proof -
    have "1 * 1 \<le> (z * (1 - a)) * (1 + a)"
      using lo a0 by (intro mult_mono) simp_all
    then show ?thesis by (simp only: prod mult_1)
  qed
  have p100: "z * (1 - a\<^sup>2) \<le> 100"
  proof -
    have "z * a\<^sup>2 \<ge> 0" using z1 by simp
    then have "z * (1 - a\<^sup>2) \<le> z" by (simp add: algebra_simps)
    also have "z \<le> z * (1 + a)" using za by (simp add: algebra_simps)
    finally show ?thesis using hi by simp
  qed
  have s1: "max 1 (min 100 (z * (1 - a))) = z * (1 - a)" using lo dn100 by simp
  have s2: "max 1 (min 100 (z * (1 + a))) = z * (1 + a)" using up1 hi by simp
  have s3: "max 1 (min 100 (z * (1 - a\<^sup>2))) = z * (1 - a\<^sup>2)" using p1 p100 by simp
  show "max 1 (min 100 (max 1 (min 100 (z * (1 - a))) * (1 + a))) = z * (1 - a\<^sup>2)"
    by (simp only: s1 prod s3)
  show "max 1 (min 100 (max 1 (min 100 (z * (1 + a))) * (1 - a))) = z * (1 - a\<^sup>2)"
    by (simp only: s2 prod' s3)
qed

text \<open>
  C3 (as stated, refuted). At the shipped configuration, from zoom 10 (inside the bounds
  1 and 100), an increment and then a decrement, both with magnitude times speed 1,
  leave the zoom at 9.975, not at 10.
\<close>

theorem zoom_round_trip_not_identity:
  "fst (turnZoom (load default_config) 8 ''[Channel1]'' (- 1) 1
         (turnZoom (load default_config) 7 ''[Channel1]'' 1 1 (\<lambda>grp key. 10, initial_state)))
     ''[Channel1]'' ''waveform_zoom'' = 9.975 \<and>
   fst (turnZoom (load default_config) 8 ''[Channel1]'' (- 1) 1
         (turnZoom (load default_config) 7 ''[Channel1]'' 1 1 (\<lambda>grp key. 10, initial_state)))
     ''[Channel1]'' ''waveform_zoom'' \<noteq> 10"
  by (simp add: turnZoom_engine default_config_def MIN_ZOOM_def MAX_ZOOM_def)

text \<open>
  C3 (amended). For a starting zoom \<open>z\<close> within the clamp bounds and a magnitude times
  speed \<open>sp \<ge> 0\<close> small enough that neither step is clamped, a zoom increment followed
  by a zoom decrement with the same \<open>sp\<close> leaves the zoom at \<open>z * (1 - (0.05 * sp)\<^sup>2)\<close>;
  that is the pre-turn value exactly when \<open>sp = 0\<close>.
\<close>

theorem zoom_round_trip:
  fixes eng :: engine
  assumes sp: "0 \<le> sp"
      and z: "eng deck ''waveform_zoom'' = z" "MIN_ZOOM \<le> z"
      and lo: "MIN_ZOOM \<le> z * (1 - sp * 0.05)"
      and hi: "z * (1 + sp * 0.05) \<le> MAX_ZOOM"
  shows "fst (turnZoom g tid' deck (- 1) sp (turnZoom g tid deck 1 sp (eng, s)))
           deck ''waveform_zoom'' = z * (1 - (0.05 * sp)\<^sup>2) \<and>
         (fst (turnZoom g tid' deck (- 1) sp (turnZoom g tid deck 1 sp (eng, s)))
           deck ''waveform_zoom'' = z \<longleftrightarrow> sp = 0)"
proof -
  define a where "a = sp * 0.05"
  let ?rev = "reverseDirection (Config g)"
  have a0: "0 \<le> a" using sp by (simp add: a_def)
  have z1: "1 \<le> z" using z by (simp add: MIN_ZOOM_def)
  have lo': "1 \<le> z * (1 - a)" using lo by (simp add: a_def MIN_ZOOM_def)
  have hi': "z * (1 + a) \<le> 100" using hi by (simp add: a_def MAX_ZOOM_def)
  have v1: "1 + real_of_int (if ?rev then - 1 else 1) * sp * 0.05 = (if ?rev then 1 - a else 1 + a)"
    by (simp add: a_def)
  have v2: "1 + real_of_int (if ?rev then - (- 1) else - 1) * sp * 0.05
              = (if ?rev then 1 + a else 1 - a)"
    by (simp add: a_def)
  have "fst (turnZoom g tid' deck (- 1) sp (turnZoom g tid deck 1 sp (eng, s)))
          deck ''waveform_zoom''
        = max 1 (min 100 (max 1 (min 100 (z * (if ?rev then 1 - a else 1 + a)))
                          * (if ?rev then 1 + a else 1 - a)))"
    by (simp only: turnZoom_engine fst_conv fun_upd_same z(1) v1 v2 MIN_ZOOM_def MAX_ZOOM_def)
  also have "\<dots> = z * (1 - a\<^sup>2)"
    using clamp_round_trip [OF a0 z1 lo' hi'] by (cases ?rev) simp_all
  finally have fin: "fst (turnZoom g tid' deck (- 1) sp (turnZoom g tid deck 1 sp (eng, s)))
           deck ''waveform_zoom'' = z * (1 - (0.05 * sp)\<^sup>2)"
    by (simp add: a_def mult.commute)
  have "z * (1 - (0.05 * sp)\<^sup>2) = z \<longleftrightarrow> sp = 0"
  proof
    assume "z * (1 - (0.05 * sp)\<^sup>2) = z"
    then have "z * (0.05 * sp)\<^sup>2 = 0" by (simp add: algebra_simps)
    with z1 show "sp = 0" by simp
  next
    assume "sp = 0"
    then show "z * (1 - (0.05 * sp)\<^sup>2) = z" by simp
  qed
  with fin show ?thesis by simp
qed

theorem zoom_round_trip_witness:
  "fst (turnZoom (load default_config) 8 ''[Channel1]'' (- 1) 2
         (turnZoom (load default_config) 7 ''[Channel1]'' 1 2 (\<lambda>grp key. 50, initial_state)))
     ''[Channel1]'' ''waveform_zoom'' = 49.5"
  using zoom_round_trip [of 2 "\<lambda>grp key. 50" "''[Channel1]''" 50 "load default_config" 8 7
          initial_state]
  by (simp add: MIN_ZOOM_def MAX_ZOOM_def power2_eq_square)

text \<open>
  C4 (as stated, refuted). With zoom feedback disabled in the configuration, a zoom
  motion writes the new zoom and nothing else: the zoom session stays idle, where a
  visualization of the written value would have activated it.
\<close>

theorem zoom_feedback_disabled_no_visualization:
  "handleZoom (load (default_config\<lparr>zoomFeedback_enabled := False\<rparr>)) (\<lambda>grp key. 10) 7
     ''[Channel1]'' 1 1 initial_state
     = (initial_state, [SetValue ''[Channel1]'' ''waveform_zoom'' 9.5]) \<and>
   active (fst (showZoomFeedback (load (default_config\<lparr>zoomFeedback_enabled := False\<rparr>)) 7
                  ''[Channel1]'' 9.5 (zoomFeedback initial_state))) \<and>
   \<not> active (zoomFeedback (fst (handleZoom
        (load (default_config\<lparr>zoomFeedback_enabled := False\<rparr>)) (\<lambda>grp key. 10) 7
        ''[Channel1]'' 1 1 initial_state)))"
proof -
  have h: "handleZoom (load (default_config\<lparr>zoomFeedback_enabled := False\<rparr>)) (\<lambda>grp key. 10) 7
     ''[Channel1]'' 1 1 initial_state
     = (initial_state, [SetValue ''[Channel1]'' ''waveform_zoom'' 9.5])"
    by (simp add: handleZoom_def default_config_def MIN_ZOOM_def MAX_ZOOM_def Let_def)
  have a: "active (fst (showZoomFeedback (load (default_config\<lparr>zoomFeedback_enabled := False\<rparr>)) 7
                  ''[Channel1]'' 9.5 (zoomFeedback initial_state)))"
    by (simp add: showZoomFeedback_def initial_state_def idle_feedback_def Let_def
          case_prod_beta)
  show ?thesis
    unfolding h using a by (simp add: initial_state_def idle_feedback_def)
qed

text \<open>
  C4 (amended). For every zoom motion event the handler reads the current zoom \<open>z\<close>,
  inverts the direction if the configuration says so, computes the factor
  \<open>1 + direction' * speed * 0.05\<close> and writes back \<open>z' = clamp(z * factor, 1, 100)\<close>;
  when zoom feedback is enabled in the configuration it then triggers the zoom
  visualization with \<open>z'\<close>, and when it is disabled it does nothing more.
\<close>

theorem handleZoom_effects:
  "handleZoom g eng tid deck direction speed s =
     (let z = eng deck ''waveform_zoom'';
          direction' = (if reverseDirection (Config g) then - direction else direction);
          factor = 1 + of_int direction' * speed * 0.05;
          z' = max 1 (min 100 (z * factor))
      in if zoomFeedback_enabled (Config g)
         then (s\<lparr>zoomFeedback := fst (showZoomFeedback g tid deck z' (zoomFeedback s))\<rparr>,
               SetValue deck ''waveform_zoom'' z' #
               snd (showZoomFeedback g tid deck z' (zoomFeedback s)))
         else (s, [SetValue deck ''waveform_zoom'' z']))"
  by (simp add: handleZoom_def Let_def MIN_ZOOM_def MAX_ZOOM_def case_prod_beta)

theorem handleZoom_effects_witness:
  "handleZoom (load default_config) (\<lambda>grp key. 10) 7 ''[Channel1]'' 1 1 initial_state
     = (initial_state\<lparr>zoomFeedback :=
          \<lparr>active = True, fb_deck = Some ''[Channel1]'', timer = Some 7, lastValue = Some 1,
           currentPadStates = [44, 48]\<rparr>\<rparr>,
        SetValue ''[Channel1]'' ''waveform_zoom'' 9.5 #
        snd (showZoomFeedback (load default_config) 7 ''[Channel1]'' 9.5 idle_feedback))"
proof -
  have n: "\<not> sameZoomLevel ''[Channel1]'' (19 / 2) (idle_feedback :: int feedback)"
    by (simp add: sameZoomLevel_def idle_feedback_def)
  have s: "sorted_wrt (<) (currentPadStates (idle_feedback :: int feedback))"
    by (simp add: idle_feedback_def)
  have st: "clampedSteps (19 / 2) = 1"
    by (simp add: clampedSteps_def MIN_ZOOM_def MAX_ZOOM_def Let_def)
  have tg: "zoomTarget (load default_config) (19 / 2) = [44, 48]"
    by (simp add: zoomTarget_def st default_order targetPadStates_def)
  have f: "fst (showZoomFeedback (load default_config) 7 ''[Channel1]'' (19 / 2) idle_feedback)
     = \<lparr>active = True, fb_deck = Some ''[Channel1]'', timer = Some 7, lastValue = Some 1,
        currentPadStates = [44, 48]\<rparr>"
    by (subst showZoomFeedback_changed [OF n s]) (simp add: tg st idle_feedback_def)
  have z: "zoomFeedback initial_state = idle_feedback"
    by (simp add: initial_state_def)
  have c: "zoomFeedback_enabled default_config" "reverseDirection default_config"
    by (simp_all add: default_config_def)
  show ?thesis
    using handleZoom_effects [of "load default_config" "\<lambda>grp key. 10" 7 "''[Channel1]''" 1 1
            initial_state]
    by (simp add: Let_def c z f)
qed

subsection \<open>Pads lit on the device by the zoom renderer\<close>

lemma pads_lit_after_Nil [simp]: "pads_lit_after [] lit = lit"
  by (simp add: pads_lit_after_def)

lemma pads_lit_after_append [simp]:
  "pads_lit_after (xs @ ys) lit = pads_lit_after ys (pads_lit_after xs lit)"
  by (simp add: pads_lit_after_def)

lemma pads_lit_after_setPadLED:
  "pads_lit_after (setPadLED note True) lit = insert note lit"
  "pads_lit_after (setPadLED note False) lit = lit - {note}"
  by (simp_all add: pads_lit_after_def setPadLED_def Let_def NOTE_ON_def NOTE_OFF_def
        PAD_CHANNEL_def CC_def LED_ON_def LED_OFF_def)

lemma pads_lit_after_on: "pads_lit_after (setPadLEDs True ns) lit = lit \<union> set ns"
  by (induction ns arbitrary: lit) (auto simp: pads_lit_after_setPadLED)

lemma pads_lit_after_off: "pads_lit_after (setPadLEDs False ns) lit = lit - set ns"
  by (induction ns arbitrary: lit) (auto simp: pads_lit_after_setPadLED)

lemma allPadsOff_setPadLEDs: "allPadsOff g = setPadLEDs False (NOTES (PadLayout g))"
  by (simp add: allPadsOff_def setPadLEDs_def)

lemma pads_lit_after_stopTimerIfSet [simp]: "pads_lit_after (stopTimerIfSet t) lit = lit"
  by (simp add: pads_lit_after_def stopTimerIfSet_def split: option.splits)

lemma pads_lit_after_BeginTimer [simp]: "pads_lit_after [BeginTimer d] lit = lit"
  by (simp add: pads_lit_after_def)

lemma order_NOTES:
  assumes "PadLayout g = generateLayout cfg"
  shows "set (getBottomLeftToTopRightOrder g) = set (NOTES (PadLayout g))"
  using assms by (auto simp: getBottomLeftToTopRightOrder_def generateLayout_def Let_def)

text \<open>
  C8 (amended). With the pad layout generated from any configuration and a zoom session
  as the renderer leaves it (idle at first): if the session has no pad lit, or the pads
  lit on the grid are the ones the session lit at its last show (nothing else has
  written to the grid since), then after \<open>showZoomFeedback\<close> for a zoom level \<open>v\<close> the
  pads lit on the grid are exactly the first
  \<open>clamp(floor(((v - 1) / (100 - 1)) * 16), 0, 15) + 1\<close> pads of the bottom-left to
  top-right order, and the session records exactly these pads.
\<close>

theorem zoom_pads_lit:
  assumes lay: "PadLayout g = generateLayout cfg"
      and ok: "zoomSessionOk g zf"
      and phys: "currentPadStates zf = [] \<or>
                 lit \<inter> set (NOTES (PadLayout g)) = set (currentPadStates zf)"
  shows "pads_lit_after (snd (showZoomFeedback g tid deck v zf)) lit \<inter> set (NOTES (PadLayout g))
           = set (take (nat (max 0 (min 15 \<lfloor>(v - 1) / (100 - 1) * 16\<rfloor>)) + 1)
                    (getBottomLeftToTopRightOrder g)) \<and>
         card (pads_lit_after (snd (showZoomFeedback g tid deck v zf)) lit
                 \<inter> set (NOTES (PadLayout g)))
           = nat (max 0 (min 15 \<lfloor>(v - 1) / (100 - 1) * 16\<rfloor>)) + 1 \<and>
         set (currentPadStates (fst (showZoomFeedback g tid deck v zf)))
           = pads_lit_after (snd (showZoomFeedback g tid deck v zf)) lit
               \<inter> set (NOTES (PadLayout g)) \<and>
         zoomSessionOk g (fst (showZoomFeedback g tid deck v zf))"
proof -
  let ?N = "set (NOTES (PadLayout g))"
  let ?T = "zoomTarget g v"
  let ?old = "currentPadStates zf"
  let ?out = "snd (showZoomFeedback g tid deck v zf)"
  have cur: "currentPadStates (fst (showZoomFeedback g tid deck v zf)) = ?T"
    and ok': "zoomSessionOk g (fst (showZoomFeedback g tid deck v zf))"
    using zoomSessionOk_show [OF ok] by simp_all
  have bound: "nat (clampedSteps v) + 1 \<le> 16"
    using clampedSteps_range [of v] by linarith
  have len: "length ?T = nat (clampedSteps v) + 1"
    using order_distinct [OF lay] bound by (simp add: zoomTarget_def length_targetPadStates)
  have st: "set ?T = set (take (nat (clampedSteps v) + 1) (getBottomLeftToTopRightOrder g))"
    by (simp add: zoomTarget_def)
  have sub: "set ?T \<subseteq> ?N"
    using set_take_subset [of "nat (clampedSteps v) + 1" "getBottomLeftToTopRightOrder g"]
    unfolding st order_NOTES [OF lay] .
  have srt: "sorted_wrt (<) ?old" using ok by (simp add: zoomSessionOk_def)
  have phys': "pads_lit_after ?out lit \<inter> ?N = set ?T"
  proof (cases "sameZoomLevel deck v zf")
    case True
    from True ok have eq: "?old = ?T"
      by (auto simp: zoomSessionOk_def sameZoomLevel_def zoomTarget_def)
    have ne: "?T \<noteq> []" using len by auto
    with eq phys have "lit \<inter> ?N = set ?T" by simp
    with True show ?thesis by (simp add: showZoomFeedback_same)
  next
    case False
    show ?thesis
    proof (cases "?old = []")
      case True
      with False srt sub show ?thesis
        by (subst showZoomFeedback_changed [OF False srt])
           (auto simp: allPadsOff_setPadLEDs pads_lit_after_on pads_lit_after_off)
    next
      case ne: False
      with phys have p: "lit \<inter> ?N = set ?old" by simp
      from ne False srt sub p show ?thesis
        by (subst showZoomFeedback_changed [OF False srt])
           (auto simp: pads_lit_after_on pads_lit_after_off)
    qed
  qed
  have crd: "card (set ?T) = nat (clampedSteps v) + 1"
    using distinct_card [OF strict_sorted_distinct, of ?T] len
    by (simp add: zoomTarget_def)
  show ?thesis
    unfolding clampedSteps_formula [symmetric] phys' cur using st crd ok' by simp
qed

theorem zoom_pads_lit_witness:
  "pads_lit_after
     (snd (showZoomFeedback (load default_config) 7 ''[Channel1]'' 8 idle_feedback)) {36, 51}
     \<inter> set (NOTES (PadLayout (load default_config))) = {0x30, 0x2C} \<and>
   card (pads_lit_after
     (snd (showZoomFeedback (load default_config) 7 ''[Channel1]'' 8 idle_feedback)) {36, 51}
     \<inter> set (NOTES (PadLayout (load default_config)))) = 2 \<and>
   take 2 (getBottomLeftToTopRightOrder (load default_config)) = [0x30, 0x2C]"
proof -
  have lay: "PadLayout (load default_config) = generateLayout default_config"
    by (simp add: load_def)
  have ph: "currentPadStates (idle_feedback :: int feedback) = [] \<or>
            {36, 51} \<inter> set (NOTES (PadLayout (load default_config)))
              = set (currentPadStates (idle_feedback :: int feedback))"
    by (simp add: idle_feedback_def)
  have fl: "\<lfloor>(8 - 1) / (100 - 1) * 16 :: real\<rfloor> = 1" by simp
  show ?thesis
    using zoom_pads_lit [OF lay zoomSessionOk_idle ph, of 7 "''[Channel1]''" 8]
    by (simp add: fl default_order insert_commute)
qed

lemma default_duration: "zoomFeedback_duration default_config = 4000"
  by (simp add: default_config_def)

lemma zoom_8_first_show:
  "snd (showZoomFeedback (load default_config) 7 ''[Channel1]'' 8 idle_feedback)
     = allPadsOff (load default_config) @ setPadLEDs True [44, 48] @ [BeginTimer 4000]"
proof -
  have n: "\<not> sameZoomLevel ''[Channel1]'' 8 (idle_feedback :: int feedback)"
    by (simp add: sameZoomLevel_def idle_feedback_def)
  have s: "sorted_wrt (<) (currentPadStates (idle_feedback :: int feedback))"
    by (simp add: idle_feedback_def)
  show ?thesis
    by (subst showZoomFeedback_changed [OF n s])
       (simp add: zoomTarget_values idle_feedback_def stopTimerIfSet_def default_duration)
qed

lemma superknob_centre_first_show:
  "snd (showSuperknobFeedback (load default_config) 8 deck (1 / 2) idle_feedback)
     = allPadsOff (load default_config) @
       setPadLEDs True [36, 37, 38, 39, 40, 41, 42, 43, 44, 45, 46, 47, 48, 49, 50, 51] @
       [BeginTimer 4000]"
proof -
  have n: "\<not> sameSuperknobValue deck (1 / 2) (idle_feedback :: real feedback)"
    by (simp add: sameSuperknobValue_def idle_feedback_def)
  have s: "sorted_wrt (<) (currentPadStates (idle_feedback :: real feedback))"
    by (simp add: idle_feedback_def)
  have t: "superknobTarget (load default_config) (1 / 2)
             = [36, 37, 38, 39, 40, 41, 42, 43, 44, 45, 46, 47, 48, 49, 50, 51]"
    by (simp add: superknobTarget_def clampedPads_values default_reverse_order
          targetPadStates_def)
  show ?thesis
    by (subst showSuperknobFeedback_changed [OF n s])
       (simp add: t idle_feedback_def stopTimerIfSet_def ZOOM_FEEDBACK_DURATION_def)
qed

lemma zoom_8_again:
  "showZoomFeedback (load default_config) 9 ''[Channel1]'' 8
     \<lparr>active = True, fb_deck = Some ''[Channel1]'', timer = Some 7, lastValue = Some 1,
      currentPadStates = [44, 48]\<rparr>
     = (\<lparr>active = True, fb_deck = Some ''[Channel1]'', timer = Some 9, lastValue = Some 1,
         currentPadStates = [44, 48]\<rparr>,
        [StopTimer 7, BeginTimer 4000])"
proof -
  have y: "sameZoomLevel ''[Channel1]'' 8
             \<lparr>active = True, fb_deck = Some ''[Channel1]'', timer = Some 7,
              lastValue = Some (1::int), currentPadStates = [44, 48]\<rparr>"
    by (simp add: sameZoomLevel_def clampedSteps_values)
  show ?thesis
    by (subst showZoomFeedback_same [OF y]) (simp add: stopTimerIfSet_def default_duration)
qed

lemma pads_lit_after_first_show:
  "pads_lit_after (allPadsOff g @ setPadLEDs True ns @ [BeginTimer d]) lit
     = lit - set (NOTES (PadLayout g)) \<union> set ns"
  by (simp only: pads_lit_after_append allPadsOff_setPadLEDs pads_lit_after_off
        pads_lit_after_on pads_lit_after_BeginTimer)

text \<open>
  C8 (as stated, refuted). At the shipped configuration, starting with every pad off:
  zoom level 8 is shown on deck 1, the superknob renderer then shows the centre value of
  deck 2, and zoom level 8 is shown again. The last call sends no LED message, and the
  grid has all 16 pads lit, not the 2 of zoom level 8, while the zoom session still
  records the pads 0x2C and 0x30.
\<close>

theorem zoom_pads_hidden_by_superknob:
  "led_messages
     (snd (showZoomFeedback (load default_config) 9 ''[Channel1]'' 8
        (fst (showZoomFeedback (load default_config) 7 ''[Channel1]'' 8 idle_feedback)))) = [] \<and>
   currentPadStates
     (fst (showZoomFeedback (load default_config) 9 ''[Channel1]'' 8
        (fst (showZoomFeedback (load default_config) 7 ''[Channel1]'' 8 idle_feedback))))
     = [44, 48] \<and>
   pads_lit_after
     (snd (showZoomFeedback (load default_config) 7 ''[Channel1]'' 8 idle_feedback) @
      snd (showSuperknobFeedback (load default_config) 8 ''[Channel2]'' (1 / 2) idle_feedback) @
      snd (showZoomFeedback (load default_config) 9 ''[Channel1]'' 8
        (fst (showZoomFeedback (load default_config) 7 ''[Channel1]'' 8 idle_feedback))))
     {} = {36, 37, 38, 39, 40, 41, 42, 43, 44, 45, 46, 47, 48, 49, 50, 51} \<and>
   card (pads_lit_after
     (snd (showZoomFeedback (load default_config) 7 ''[Channel1]'' 8 idle_feedback) @
      snd (showSuperknobFeedback (load default_config) 8 ''[Channel2]'' (1 / 2) idle_feedback) @
      snd (showZoomFeedback (load default_config) 9 ''[Channel1]'' 8
        (fst (showZoomFeedback (load default_config) 7 ''[Channel1]'' 8 idle_feedback))))
     {}) = 16"
proof -
  let ?g = "load default_config"
  let ?zf1 = "fst (showZoomFeedback ?g 7 ''[Channel1]'' 8 idle_feedback)"
  let ?out1 = "snd (showZoomFeedback ?g 7 ''[Channel1]'' 8 idle_feedback)"
  let ?out2 = "snd (showSuperknobFeedback ?g 8 ''[Channel2]'' (1 / 2) idle_feedback)"
  let ?out3 = "snd (showZoomFeedback ?g 9 ''[Channel1]'' 8 ?zf1)"
  let ?all = "{36, 37, 38, 39, 40, 41, 42, 43, 44, 45, 46, 47, 48, 49, 50, 51} :: nat set"
  have e1: "pads_lit_after ?out1 {} = {44, 48}"
    unfolding zoom_8_first_show pads_lit_after_first_show by simp
  have e2: "pads_lit_after ?out2 {44, 48} = ?all"
    unfolding superknob_centre_first_show pads_lit_after_first_show
    by (auto simp: default_NOTES)
  have o3: "?out3 = [StopTimer 7, BeginTimer 4000]"
    unfolding zoom_after_8 zoom_8_again by simp
  have e3: "pads_lit_after ?out3 ?all = ?all"
    unfolding o3 by (simp add: pads_lit_after_def)
  have lit: "pads_lit_after (?out1 @ ?out2 @ ?out3) {} = ?all"
    by (simp only: pads_lit_after_append e1 e2 e3)
  have c: "card ?all = 16" by simp
  have r: "currentPadStates (fst (showZoomFeedback ?g 9 ''[Channel1]'' 8 ?zf1)) = [44, 48]"
    unfolding zoom_after_8 zoom_8_again by simp
  have l: "led_messages ?out3 = []"
    unfolding o3 by (simp add: led_messages_def)
  show ?thesis
    unfolding lit using l r c by simp
qed

subsection \<open>The full-grid clear of the superknob renderer\<close>

lemma superknob_after_end_stop:
  "fst (showSuperknobFeedback (load default_config) 8 ''[Channel1]'' 1
     \<lparr>active = True, fb_deck = Some ''[Channel1]'', timer = Some 7, lastValue = Some (1 / 2),
      currentPadStates = [36, 37, 38, 39, 40, 41, 42, 43, 44, 45, 46, 47, 48, 49, 50, 51]\<rparr>)
     = \<lparr>active = True, fb_deck = Some ''[Channel1]'', timer = Some 8, lastValue = Some 1,
        currentPadStates = []\<rparr>"
proof -
  let ?sf = "\<lparr>active = True, fb_deck = Some ''[Channel1]'', timer = Some 7,
              lastValue = Some (1 / 2 :: real),
              currentPadStates = [36, 37, 38, 39, 40, 41, 42, 43, 44, 45, 46, 47, 48, 49, 50, 51]\<rparr>"
  have n: "\<not> sameSuperknobValue ''[Channel1]'' 1 ?sf"
    by (simp add: sameSuperknobValue_def)
  have s: "sorted_wrt (<) (currentPadStates ?sf)" by simp
  show ?thesis
    by (subst showSuperknobFeedback_changed [OF n s]) (simp add: superknobTarget_values)
qed

text \<open>
  C7 (the code at the failing input). At the shipped configuration one superknob
  session shows the values 0.5, 1 and 0.75 in a row. After the second call the session
  is still active and has no pad lit, so the third call takes the branch commented
  \<^verbatim>\<open>on first activation, clear all pads once\<close> again: before the eight on messages of
  the differential update it sends an off message to each of the 16 pads, none of which
  the session has lit.
\<close>

theorem superknob_clear_repeats_mid_session:
  "active (fst (showSuperknobFeedback (load default_config) 8 ''[Channel1]'' 1
      (fst (showSuperknobFeedback (load default_config) 7 ''[Channel1]'' (1 / 2) idle_feedback)))) \<and>
   currentPadStates (fst (showSuperknobFeedback (load default_config) 8 ''[Channel1]'' 1
      (fst (showSuperknobFeedback (load default_config) 7 ''[Channel1]'' (1 / 2) idle_feedback))))
     = [] \<and>
   led_messages (snd (showSuperknobFeedback (load default_config) 9 ''[Channel1]'' (3 / 4)
      (fst (showSuperknobFeedback (load default_config) 8 ''[Channel1]'' 1
        (fst (showSuperknobFeedback (load default_config) 7 ''[Channel1]'' (1 / 2)
           idle_feedback))))))
     = setPadLEDs False [51, 47, 43, 39, 50, 46, 42, 38, 49, 45, 41, 37, 48, 44, 40, 36] @
       setPadLEDs True [38, 39, 42, 43, 46, 47, 50, 51]"
proof -
  let ?sf2 = "\<lparr>active = True, fb_deck = Some ''[Channel1]'', timer = Some 8,
               lastValue = Some (1 :: real), currentPadStates = []\<rparr>"
  have n: "\<not> sameSuperknobValue ''[Channel1]'' (3 / 4) ?sf2"
    by (simp add: sameSuperknobValue_def)
  have s: "sorted_wrt (<) (currentPadStates ?sf2)" by simp
  have l: "led_messages (snd (showSuperknobFeedback (load default_config) 9 ''[Channel1]''
                                (3 / 4) ?sf2))
             = setPadLEDs False [51, 47, 43, 39, 50, 46, 42, 38, 49, 45, 41, 37, 48, 44, 40, 36] @
               setPadLEDs True [38, 39, 42, 43, 46, 47, 50, 51]"
    by (subst showSuperknobFeedback_changed [OF n s])
       (simp add: superknobTarget_values allPadsOff_setPadLEDs default_NOTES
          del: setPadLEDs_Cons)
  show ?thesis
    unfolding superknob_after_centre superknob_after_end_stop l by simp
qed

end
